theory Spec2Isabelle
  imports Complex_Main
begin

section \<open>Memory and matrices\<close>

text \<open>
  The filter of \<^verbatim>\<open>Kalman/kalman.c\<close> works on caller-owned buffers of
  \<^verbatim>\<open>matrix_data_t\<close>. A buffer is named by its address and the memory maps
  every address to the contents of the buffer that starts there, a flat list.
  The element type \<^verbatim>\<open>matrix_data_t\<close> is declared in \<^verbatim>\<open>matrix.h\<close>, which
  is not among the sources: it is the type parameter \<open>'a\<close>. The definitions only
  use the operation symbols \<open>0\<close>, \<open>1\<close>, \<open>+\<close>, \<open>-\<close>, \<open>*\<close> and \<open>/\<close> on it and
  assume no law of arithmetic; a theorem that needs laws says so in its sort,
  and a theorem about infinities and NaN is about the arithmetic \<open>xreal\<close>
  defined below.
\<close>

type_synonym addr = nat

type_synonym 'a heap = "addr \<Rightarrow> 'a list"

text \<open>
  Modelled from the spec: the declaration of \<^verbatim>\<open>matrix_t\<close> is in \<^verbatim>\<open>matrix.h\<close>,
  not among the sources. The spec describes a matrix as a
  (rows, columns, flat backing store) triple over caller-owned storage; the
  source reads the field \<^verbatim>\<open>rows\<close> (\<^verbatim>\<open>kf->B.rows\<close>). The dimensions are
  \<^verbatim>\<open>uint_fast8_t\<close> in the source; no arithmetic is done on them there, so they
  are natural numbers here, an argument being a value of its type.
\<close>

record matrix_t =
  rows :: nat
  cols :: nat
  data :: addr

text \<open>Row-major element access through a matrix header.\<close>

definition elem :: "'a heap \<Rightarrow> matrix_t \<Rightarrow> nat \<Rightarrow> nat \<Rightarrow> 'a" where
  "elem h m i j = h (data m) ! (i * cols m + j)"

text \<open>
  The inner loop of every product: \<^verbatim>\<open>total = 0; for k < n: total += f k\<close>,
  summed from the left.
\<close>

primrec accumulate :: "nat \<Rightarrow> (nat \<Rightarrow> 'a) \<Rightarrow> 'a::{zero,plus}" where
  "accumulate 0 f = 0"
| "accumulate (Suc n) f = accumulate n f + f n"

text \<open>
  Writing a whole matrix: the first \<open>rows * cols\<close> cells of the destination
  buffer receive the entries, whatever lies behind them in the buffer stays.
\<close>

definition entries :: "nat \<Rightarrow> nat \<Rightarrow> (nat \<Rightarrow> nat \<Rightarrow> 'a) \<Rightarrow> 'a list" where
  "entries r c f = map (\<lambda>k. f (k div c) (k mod c)) [0..<r * c]"

definition write_matrix :: "matrix_t \<Rightarrow> (nat \<Rightarrow> nat \<Rightarrow> 'a) \<Rightarrow> 'a heap \<Rightarrow> 'a heap" where
  "write_matrix c f h =
     h(data c := entries (rows c) (cols c) f @ drop (rows c * cols c) (h (data c)))"

subsection \<open>Matrix values\<close>

text \<open>
  Products of matrices given by their entries, with inner dimension \<open>n\<close>:
  \<open>a \<cdot> b\<close> and \<open>a \<cdot> b\<^sup>T\<close>.
\<close>

definition mat_mult :: "nat \<Rightarrow> (nat \<Rightarrow> nat \<Rightarrow> 'a) \<Rightarrow> (nat \<Rightarrow> nat \<Rightarrow> 'a) \<Rightarrow> nat \<Rightarrow> nat \<Rightarrow> 'a::{zero,plus,times}" where
  "mat_mult n a b i j = accumulate n (\<lambda>k. a i k * b k j)"

definition mat_mult_transb :: "nat \<Rightarrow> (nat \<Rightarrow> nat \<Rightarrow> 'a) \<Rightarrow> (nat \<Rightarrow> nat \<Rightarrow> 'a) \<Rightarrow> nat \<Rightarrow> nat \<Rightarrow> 'a::{zero,plus,times}" where
  "mat_mult_transb n a b i j = accumulate n (\<lambda>k. a i k * b j k)"

section \<open>The matrix library the filter calls\<close>

text \<open>
  Modelled from the spec: \<^verbatim>\<open>matrix_init\<close> is declared in \<^verbatim>\<open>matrix.h\<close>, not
  among the sources. The spec: fixed-shape matrix construction over
  caller-owned storage (rows, columns, backing buffer); it stores a
  reference and does not copy data. The memory is passed through untouched.
\<close>

definition matrix_init :: "nat \<Rightarrow> nat \<Rightarrow> addr \<Rightarrow> 'a heap \<Rightarrow> matrix_t \<times> 'a heap" where
  "matrix_init r c buffer h = (\<lparr>rows = r, cols = c, data = buffer\<rparr>, h)"

text \<open>
  Modelled from the spec: the arithmetic primitives are declared in
  \<^verbatim>\<open>matrix.h\<close>, not among the sources. The spec lists them as
  plain and transposed matrix multiplication with variants that write to a
  fresh destination, accumulate into an existing destination, apply a uniform
  scale factor during a transposed multiply, or use a caller-supplied scratch
  vector; in-place elementwise addition and subtraction; and plain copy.
  Each primitive reads its operands in the memory it is given and writes its
  destination. Aliased operands are outside the library's contract (the
  source passes \<^verbatim>\<open>RESTRICT\<close> pointers); the theorems assume distinct buffers.
\<close>

definition matrix_mult_rowvector :: "matrix_t \<Rightarrow> matrix_t \<Rightarrow> matrix_t \<Rightarrow> 'a heap \<Rightarrow> ('a::{zero,plus,times}) heap" where
  "matrix_mult_rowvector a x c h = write_matrix c (mat_mult (cols a) (elem h a) (elem h x)) h"

definition matrix_multadd_rowvector :: "matrix_t \<Rightarrow> matrix_t \<Rightarrow> matrix_t \<Rightarrow> 'a heap \<Rightarrow> ('a::{zero,plus,times}) heap" where
  "matrix_multadd_rowvector a x c h =
     write_matrix c (\<lambda>i j. elem h c i j + mat_mult (cols a) (elem h a) (elem h x) i j) h"

definition matrix_copy :: "matrix_t \<Rightarrow> matrix_t \<Rightarrow> 'a heap \<Rightarrow> 'a heap" where
  "matrix_copy src dst h = write_matrix dst (elem h src) h"

text \<open>
  The scratch vector of \<^verbatim>\<open>matrix_mult\<close>: the spec only says that it is used
  for internal row/column accumulation and may be clobbered. What the library
  leaves in it is a parameter: a function of the two operands' buffers and
  the previous scratch contents.
\<close>

type_synonym 'a scratch_use = "'a list \<Rightarrow> 'a list \<Rightarrow> 'a list \<Rightarrow> 'a list"

definition matrix_mult :: "'a scratch_use \<Rightarrow> matrix_t \<Rightarrow> matrix_t \<Rightarrow> matrix_t \<Rightarrow> addr \<Rightarrow> 'a heap \<Rightarrow> ('a::{zero,plus,times}) heap" where
  "matrix_mult scr a b c baux h =
     write_matrix c (mat_mult (cols a) (elem h a) (elem h b))
       (h(baux := scr (h (data a)) (h (data b)) (h baux)))"

definition matrix_mult_transb :: "matrix_t \<Rightarrow> matrix_t \<Rightarrow> matrix_t \<Rightarrow> 'a heap \<Rightarrow> ('a::{zero,plus,times}) heap" where
  "matrix_mult_transb a b c h = write_matrix c (mat_mult_transb (cols a) (elem h a) (elem h b)) h"

definition matrix_multadd_transb :: "matrix_t \<Rightarrow> matrix_t \<Rightarrow> matrix_t \<Rightarrow> 'a heap \<Rightarrow> ('a::{zero,plus,times}) heap" where
  "matrix_multadd_transb a b c h =
     write_matrix c (\<lambda>i j. elem h c i j + mat_mult_transb (cols a) (elem h a) (elem h b) i j) h"

definition matrix_multscale_transb :: "matrix_t \<Rightarrow> matrix_t \<Rightarrow> 'a \<Rightarrow> matrix_t \<Rightarrow> 'a heap \<Rightarrow> ('a::{zero,plus,times}) heap" where
  "matrix_multscale_transb a b scale c h =
     write_matrix c (\<lambda>i j. mat_mult_transb (cols a) (elem h a) (elem h b) i j * scale) h"

definition matrix_add_inplace :: "matrix_t \<Rightarrow> matrix_t \<Rightarrow> 'a heap \<Rightarrow> ('a::plus) heap" where
  "matrix_add_inplace a b h = write_matrix a (\<lambda>i j. elem h a i j + elem h b i j) h"

definition matrix_sub_inplace_b :: "matrix_t \<Rightarrow> matrix_t \<Rightarrow> 'a heap \<Rightarrow> ('a::minus) heap" where
  "matrix_sub_inplace_b a b h = write_matrix b (\<lambda>i j. elem h a i j - elem h b i j) h"

definition matrix_sub :: "matrix_t \<Rightarrow> matrix_t \<Rightarrow> matrix_t \<Rightarrow> 'a heap \<Rightarrow> ('a::minus) heap" where
  "matrix_sub a b c h = write_matrix c (\<lambda>i j. elem h a i j - elem h b i j) h"

text \<open>
  Modelled from the spec: \<^verbatim>\<open>cholesky_decompose_lower\<close> (\<^verbatim>\<open>cholesky.h\<close>) and
  \<^verbatim>\<open>matrix_invert_lower\<close> (\<^verbatim>\<open>matrix.h\<close>) are not among the sources, and the
  spec gives their contract only: lower-triangular Cholesky decomposition of
  a symmetric matrix, performed in place, and inversion of a lower-triangular
  matrix into a separate destination. The two computations are parameters:
  \<open>chol_factor n\<close> maps the contents of an \<open>n \<times> n\<close> buffer to the contents
  after the decomposition, \<open>lower_inverse n\<close> maps the contents of the factor to
  the contents of the destination.
\<close>

record 'a triangular_ops =
  chol_factor :: "nat \<Rightarrow> 'a list \<Rightarrow> 'a list"
  lower_inverse :: "nat \<Rightarrow> 'a list \<Rightarrow> 'a list"

definition cholesky_decompose_lower :: "'a triangular_ops \<Rightarrow> matrix_t \<Rightarrow> 'a heap \<Rightarrow> 'a heap" where
  "cholesky_decompose_lower ops m h = h(data m := chol_factor ops (rows m) (h (data m)))"

definition matrix_invert_lower :: "'a triangular_ops \<Rightarrow> matrix_t \<Rightarrow> matrix_t \<Rightarrow> 'a heap \<Rightarrow> 'a heap" where
  "matrix_invert_lower ops lower dst h =
     h(data dst := lower_inverse ops (rows lower) (h (data lower)))"

section \<open>The filter structures\<close>

text \<open>
  Modelled from the spec: \<^verbatim>\<open>kalman_t\<close> and \<^verbatim>\<open>kalman_measurement_t\<close> are
  declared in \<^verbatim>\<open>kalman.h\<close>, not among the sources. Their fields are the ones
  the source reads and writes: \<^verbatim>\<open>kf->A\<close>, \<^verbatim>\<open>kf->P\<close>, \<^verbatim>\<open>kf->x\<close>, \<^verbatim>\<open>kf->B\<close>,
  \<^verbatim>\<open>kf->Q\<close>, \<^verbatim>\<open>kf->u\<close>, \<^verbatim>\<open>kf->temporary.aux\<close>, \<^verbatim>\<open>kf->temporary.predicted_x\<close>,
  \<^verbatim>\<open>kf->temporary.P\<close>, \<^verbatim>\<open>kf->temporary.BQ\<close> and \<^verbatim>\<open>kfm->H\<close>, \<^verbatim>\<open>kfm->R\<close>,
  \<^verbatim>\<open>kfm->z\<close>, \<^verbatim>\<open>kfm->K\<close>, \<^verbatim>\<open>kfm->S\<close>, \<^verbatim>\<open>kfm->y\<close>. A field selector is a
  constant of the theory, so the one-letter field names carry the name of
  their structure in front: \<open>kf_A\<close> is \<^verbatim>\<open>kf->A\<close>, \<open>tmp_P\<close> is
  \<^verbatim>\<open>kf->temporary.P\<close>, \<open>kfm_H\<close> is \<^verbatim>\<open>kfm->H\<close>.
\<close>

record kalman_temporary_t =
  tmp_aux :: addr
  tmp_predicted_x :: matrix_t
  tmp_P :: matrix_t
  tmp_BQ :: matrix_t

record kalman_t =
  kf_x :: matrix_t
  kf_A :: matrix_t
  kf_P :: matrix_t
  kf_u :: matrix_t
  kf_B :: matrix_t
  kf_Q :: matrix_t
  temporary :: kalman_temporary_t

record kalman_measurement_t =
  kfm_z :: matrix_t
  kfm_H :: matrix_t
  kfm_R :: matrix_t
  kfm_y :: matrix_t
  kfm_S :: matrix_t
  kfm_K :: matrix_t

section \<open>Initialisation\<close>

text \<open>\<^verbatim>\<open>kalman_filter_initialize\<close>, lines 25 to 48: ten assignments to the structure.\<close>

definition kalman_filter_initialize ::
  "kalman_t \<Rightarrow> nat \<Rightarrow> nat \<Rightarrow> addr \<Rightarrow> addr \<Rightarrow> addr \<Rightarrow> addr \<Rightarrow> addr \<Rightarrow> addr \<Rightarrow>
   addr \<Rightarrow> addr \<Rightarrow> addr \<Rightarrow> addr \<Rightarrow> 'a heap \<Rightarrow> kalman_t \<times> 'a heap" where
  "kalman_filter_initialize kf num_states num_inputs A x B u P Q
       aux predictedX temp_P temp_BQ h0 =
     (let (m, h1) = matrix_init num_states num_states A h0;
          kf = kf\<lparr>kf_A := m\<rparr>;
          (m, h2) = matrix_init num_states num_states P h1;
          kf = kf\<lparr>kf_P := m\<rparr>;
          (m, h3) = matrix_init num_states 1 x h2;
          kf = kf\<lparr>kf_x := m\<rparr>;
          (m, h4) = matrix_init num_states num_inputs B h3;
          kf = kf\<lparr>kf_B := m\<rparr>;
          (m, h5) = matrix_init num_inputs num_inputs Q h4;
          kf = kf\<lparr>kf_Q := m\<rparr>;
          (m, h6) = matrix_init num_inputs 1 u h5;
          kf = kf\<lparr>kf_u := m\<rparr>;
          kf = kf\<lparr>temporary := (temporary kf)\<lparr>tmp_aux := aux\<rparr>\<rparr>;
          (m, h7) = matrix_init num_states 1 predictedX h6;
          kf = kf\<lparr>temporary := (temporary kf)\<lparr>tmp_predicted_x := m\<rparr>\<rparr>;
          (m, h8) = matrix_init num_states num_states temp_P h7;
          kf = kf\<lparr>temporary := (temporary kf)\<lparr>tmp_P := m\<rparr>\<rparr>;
          (m, h9) = matrix_init num_states num_inputs temp_BQ h8;
          kf = kf\<lparr>temporary := (temporary kf)\<lparr>tmp_BQ := m\<rparr>\<rparr>
      in (kf, h9))"

text \<open>\<^verbatim>\<open>kalman_measurement_initialize\<close>, lines 63 to 72.\<close>

definition kalman_measurement_initialize ::
  "kalman_measurement_t \<Rightarrow> nat \<Rightarrow> nat \<Rightarrow> addr \<Rightarrow> addr \<Rightarrow> addr \<Rightarrow> addr \<Rightarrow> addr \<Rightarrow> addr \<Rightarrow>
   'a heap \<Rightarrow> kalman_measurement_t \<times> 'a heap" where
  "kalman_measurement_initialize kfm num_states num_measurements H z R y S K h0 =
     (let (m, h1) = matrix_init num_measurements num_states H h0;
          kfm = kfm\<lparr>kfm_H := m\<rparr>;
          (m, h2) = matrix_init num_measurements num_measurements R h1;
          kfm = kfm\<lparr>kfm_R := m\<rparr>;
          (m, h3) = matrix_init num_measurements 1 z h2;
          kfm = kfm\<lparr>kfm_z := m\<rparr>;
          (m, h4) = matrix_init num_states num_measurements K h3;
          kfm = kfm\<lparr>kfm_K := m\<rparr>;
          (m, h5) = matrix_init num_measurements num_measurements S h4;
          kfm = kfm\<lparr>kfm_S := m\<rparr>;
          (m, h6) = matrix_init num_measurements 1 y h5;
          kfm = kfm\<lparr>kfm_y := m\<rparr>
      in (kfm, h6))"

section \<open>The time update\<close>

text \<open>
  \<^verbatim>\<open>kalman_predict\<close>, lines 82 to 123. The structure is only read; the
  function returns the memory it leaves behind. The parameter \<^verbatim>\<open>lambda\<close> is
  overwritten with \<^verbatim>\<open>1 / (lambda * lambda)\<close> on line 111 (\<open>lambda'\<close>).
\<close>

definition kalman_predict :: "'a scratch_use \<Rightarrow> kalman_t \<Rightarrow> 'a \<Rightarrow> 'a heap \<Rightarrow> ('a::{zero,one,plus,times,inverse}) heap" where
  "kalman_predict scr kf lambda h0 =
     (let A = kf_A kf;
          B = kf_B kf;
          P = kf_P kf;
          x = kf_x kf;
          aux = tmp_aux (temporary kf);
          P_temp = tmp_P (temporary kf);
          BQ_temp = tmp_BQ (temporary kf);
          xpredicted = tmp_predicted_x (temporary kf);
          h1 = matrix_mult_rowvector A x xpredicted h0;
          h2 = matrix_copy xpredicted x h1;
          lambda' = 1 / (lambda * lambda);
          h3 = matrix_mult scr A P P_temp aux h2;
          h4 = matrix_multscale_transb P_temp A lambda' P h3
      in if rows (kf_B kf) > 0
         then let h5 = matrix_mult scr B (kf_Q kf) BQ_temp aux h4
              in matrix_multadd_transb BQ_temp B P h5
         else h4)"

section \<open>The measurement update\<close>

datatype error = Assertion_failed

text \<open>
  \<^verbatim>\<open>assert\<close> of \<^verbatim>\<open>assert.h\<close>: the program aborts when the condition is false.
  The source includes \<^verbatim>\<open>assert.h\<close> without defining \<^verbatim>\<open>NDEBUG\<close>, so the
  assertion is compiled in.
\<close>

definition c_assert :: "bool \<Rightarrow> error + unit" where
  "c_assert b = (if b then Inr () else Inl Assertion_failed)"

text \<open>
  The locals of \<^verbatim>\<open>kalman_correct\<close>, lines 133 to 136, are declared and never
  initialised: the scalar \<^verbatim>\<open>aux\<close>, whose address is passed as scratch vector,
  and the matrix headers \<^verbatim>\<open>Sinv\<close>, \<^verbatim>\<open>temp\<close> and \<^verbatim>\<open>temp2\<close>. Their
  indeterminate values are a parameter of the model.
\<close>

record correct_locals =
  loc_aux :: addr
  loc_Sinv :: matrix_t
  loc_temp :: matrix_t
  loc_temp2 :: matrix_t

text \<open>The statements of lines 138 to 188, behind the assertion.\<close>

definition kalman_correct_steps ::
  "'a scratch_use \<Rightarrow> 'a triangular_ops \<Rightarrow> correct_locals \<Rightarrow> kalman_t \<Rightarrow> kalman_measurement_t \<Rightarrow>
   'a heap \<Rightarrow> ('a::{zero,plus,minus,times}) heap" where
  "kalman_correct_steps scr ops loc kf kfm h0 =
     (let aux = loc_aux loc;
          Sinv = loc_Sinv loc;
          temp = loc_temp loc;
          temp2 = loc_temp2 loc;
          P = kf_P kf;
          H = kfm_H kfm;
          K = kfm_K kfm;
          S = kfm_S kfm;
          y = kfm_y kfm;
          x = kf_x kf;
          h1 = matrix_mult_rowvector H x y h0;
          h2 = matrix_sub_inplace_b (kfm_z kfm) y h1;
          h3 = matrix_mult scr H P temp aux h2;
          h4 = matrix_mult_transb temp H S h3;
          h5 = matrix_add_inplace S (kfm_R kfm) h4;
          h6 = cholesky_decompose_lower ops S h5;
          h7 = matrix_invert_lower ops S Sinv h6;
          h8 = matrix_mult_transb P H temp h7;
          h9 = matrix_mult scr temp Sinv K aux h8;
          h10 = matrix_multadd_rowvector K y x h9;
          h11 = matrix_mult scr H P temp aux h10;
          h12 = matrix_mult scr K temp temp2 aux h11
      in matrix_sub P temp2 P h12)"

text \<open>
  \<^verbatim>\<open>kalman_correct\<close>, lines 129 to 189: \<^verbatim>\<open>assert(0)\<close> on line 132 comes
  before every other statement.
\<close>

definition kalman_correct ::
  "'a scratch_use \<Rightarrow> 'a triangular_ops \<Rightarrow> correct_locals \<Rightarrow> kalman_t \<Rightarrow> kalman_measurement_t \<Rightarrow>
   'a heap \<Rightarrow> error + ('a::{zero,plus,minus,times}) heap" where
  "kalman_correct scr ops loc kf kfm h0 =
     (case c_assert False of
        Inl e \<Rightarrow> Inl e
      | Inr _ \<Rightarrow> Inr (kalman_correct_steps scr ops loc kf kfm h0))"

section \<open>What the spec says the time update computes\<close>

text \<open>
  The matrices of the spec's formulas, read in a memory \<open>h\<close> through the
  headers of a filter: \<open>A\<cdot>x\<close>, \<open>A\<cdot>P\<close>, \<open>(A\<cdot>P)\<cdot>A\<^sup>T\<close>, \<open>B\<cdot>Q\<close> and \<open>(B\<cdot>Q)\<cdot>B\<^sup>T\<close>.
\<close>

definition A_x :: "'a heap \<Rightarrow> kalman_t \<Rightarrow> nat \<Rightarrow> nat \<Rightarrow> 'a::{zero,plus,times}" where
  "A_x h kf = mat_mult (cols (kf_A kf)) (elem h (kf_A kf)) (elem h (kf_x kf))"

definition A_P :: "'a heap \<Rightarrow> kalman_t \<Rightarrow> nat \<Rightarrow> nat \<Rightarrow> 'a::{zero,plus,times}" where
  "A_P h kf = mat_mult (cols (kf_A kf)) (elem h (kf_A kf)) (elem h (kf_P kf))"

definition A_P_At :: "'a heap \<Rightarrow> kalman_t \<Rightarrow> nat \<Rightarrow> nat \<Rightarrow> 'a::{zero,plus,times}" where
  "A_P_At h kf = mat_mult_transb (cols (kf_A kf)) (A_P h kf) (elem h (kf_A kf))"

definition B_Q :: "'a heap \<Rightarrow> kalman_t \<Rightarrow> nat \<Rightarrow> nat \<Rightarrow> 'a::{zero,plus,times}" where
  "B_Q h kf = mat_mult (cols (kf_B kf)) (elem h (kf_B kf)) (elem h (kf_Q kf))"

definition B_Q_Bt :: "'a heap \<Rightarrow> kalman_t \<Rightarrow> nat \<Rightarrow> nat \<Rightarrow> 'a::{zero,plus,times}" where
  "B_Q_Bt h kf = mat_mult_transb (cols (kf_B kf)) (B_Q h kf) (elem h (kf_B kf))"

section \<open>What the spec says the measurement update computes\<close>

text \<open>
  The spec's formulas of section 4.4, read in a memory \<open>h\<close> through the headers
  of a filter and a measurement block: the innovation \<open>z - H\<cdot>x\<close>, the product
  \<open>H\<cdot>P\<close>, the residual covariance \<open>(H\<cdot>P)\<cdot>H\<^sup>T + R\<close>, the contents of \<open>S\<close> after the
  in-place decomposition, the inverse read as a matrix of the shape of \<open>S\<close>,
  the gain \<open>(P\<cdot>H\<^sup>T)\<cdot>S\<^sup>-\<^sup>1\<close>, the state \<open>x + K\<cdot>y\<close> and the covariance
  \<open>P - K\<cdot>(H\<cdot>P)\<close>.
\<close>

definition innovation :: "'a heap \<Rightarrow> kalman_t \<Rightarrow> kalman_measurement_t \<Rightarrow> nat \<Rightarrow> nat \<Rightarrow> 'a::{zero,plus,minus,times}" where
  "innovation h kf kfm i j =
     elem h (kfm_z kfm) i j - mat_mult (cols (kfm_H kfm)) (elem h (kfm_H kfm)) (elem h (kf_x kf)) i j"

definition H_P :: "'a heap \<Rightarrow> kalman_t \<Rightarrow> kalman_measurement_t \<Rightarrow> nat \<Rightarrow> nat \<Rightarrow> 'a::{zero,plus,times}" where
  "H_P h kf kfm = mat_mult (cols (kfm_H kfm)) (elem h (kfm_H kfm)) (elem h (kf_P kf))"

definition residual_covariance :: "'a heap \<Rightarrow> kalman_t \<Rightarrow> kalman_measurement_t \<Rightarrow> nat \<Rightarrow> nat \<Rightarrow> 'a::{zero,plus,times}" where
  "residual_covariance h kf kfm i j =
     mat_mult_transb (cols (kfm_H kfm)) (H_P h kf kfm) (elem h (kfm_H kfm)) i j
       + elem h (kfm_R kfm) i j"

definition residual_factor :: "'a triangular_ops \<Rightarrow> 'a heap \<Rightarrow> kalman_t \<Rightarrow> kalman_measurement_t \<Rightarrow> ('a::{zero,plus,times}) list" where
  "residual_factor ops h kf kfm =
     chol_factor ops (rows (kfm_S kfm))
       (entries (rows (kfm_S kfm)) (cols (kfm_S kfm)) (residual_covariance h kf kfm)
          @ drop (rows (kfm_S kfm) * cols (kfm_S kfm)) (h (data (kfm_S kfm))))"

definition residual_inverse :: "'a triangular_ops \<Rightarrow> 'a heap \<Rightarrow> kalman_t \<Rightarrow> kalman_measurement_t \<Rightarrow> nat \<Rightarrow> nat \<Rightarrow> 'a::{zero,plus,times}" where
  "residual_inverse ops h kf kfm i j =
     lower_inverse ops (rows (kfm_S kfm)) (residual_factor ops h kf kfm) ! (i * cols (kfm_S kfm) + j)"

definition gain :: "'a triangular_ops \<Rightarrow> 'a heap \<Rightarrow> kalman_t \<Rightarrow> kalman_measurement_t \<Rightarrow> nat \<Rightarrow> nat \<Rightarrow> 'a::{zero,plus,times}" where
  "gain ops h kf kfm =
     mat_mult (cols (kfm_K kfm))
       (mat_mult_transb (cols (kf_P kf)) (elem h (kf_P kf)) (elem h (kfm_H kfm)))
       (residual_inverse ops h kf kfm)"

definition corrected_state :: "'a triangular_ops \<Rightarrow> 'a heap \<Rightarrow> kalman_t \<Rightarrow> kalman_measurement_t \<Rightarrow> nat \<Rightarrow> nat \<Rightarrow> 'a::{zero,plus,minus,times}" where
  "corrected_state ops h kf kfm i j =
     elem h (kf_x kf) i j
       + mat_mult (cols (kfm_K kfm)) (gain ops h kf kfm) (innovation h kf kfm) i j"

definition corrected_covariance :: "'a triangular_ops \<Rightarrow> 'a heap \<Rightarrow> kalman_t \<Rightarrow> kalman_measurement_t \<Rightarrow> nat \<Rightarrow> nat \<Rightarrow> 'a::{zero,plus,minus,times}" where
  "corrected_covariance ops h kf kfm i j =
     elem h (kf_P kf) i j
       - mat_mult (cols (kfm_K kfm)) (gain ops h kf kfm) (H_P h kf kfm) i j"

section \<open>Example filters\<close>

text \<open>A library that leaves the scratch vector as it found it.\<close>

definition untouched_scratch :: "'a scratch_use" where
  "untouched_scratch a b old = old"

text \<open>The structures before initialisation.\<close>

definition blank_matrix :: matrix_t where
  "blank_matrix = \<lparr>rows = 0, cols = 0, data = 0\<rparr>"

definition blank_filter :: kalman_t where
  "blank_filter = \<lparr>kf_x = blank_matrix, kf_A = blank_matrix, kf_P = blank_matrix,
     kf_u = blank_matrix, kf_B = blank_matrix, kf_Q = blank_matrix,
     temporary = \<lparr>tmp_aux = 0, tmp_predicted_x = blank_matrix, tmp_P = blank_matrix,
       tmp_BQ = blank_matrix\<rparr>\<rparr>"

definition blank_measurement :: kalman_measurement_t where
  "blank_measurement = \<lparr>kfm_z = blank_matrix, kfm_H = blank_matrix, kfm_R = blank_matrix,
     kfm_y = blank_matrix, kfm_S = blank_matrix, kfm_K = blank_matrix\<rparr>"

text \<open>
  A filter with two states and one input over the reals. The buffers are at
  the addresses 0 to 9, in the order of the arguments of
  \<^verbatim>\<open>kalman_filter_initialize\<close>: \<open>A = [[1, 1], [0, 1]]\<close>, \<open>x = [0, 1]\<close>,
  \<open>B = [[0], [1]]\<close>, \<open>u = [0]\<close>, \<open>P\<close> the identity, \<open>Q = [1]\<close>, then the four
  scratch buffers.
\<close>

definition two_state_heap :: "real heap" where
  "two_state_heap = (\<lambda>p. [])
     (0 := [1, 1, 0, 1], 1 := [0, 1], 2 := [0, 1], 3 := [0], 4 := [1, 0, 0, 1], 5 := [1],
      6 := [0, 0], 7 := [0, 0], 8 := [0, 0, 0, 0], 9 := [0, 0])"

definition two_state_filter :: kalman_t where
  "two_state_filter =
     fst (kalman_filter_initialize blank_filter 2 1 0 1 2 3 4 5 6 7 8 9 two_state_heap)"

text \<open>
  The scalar filter of the spec's worked example: one state, no input, one
  measurement; \<open>A = [1]\<close>, \<open>B\<close> empty, \<open>x = [0]\<close>, \<open>P = [1]\<close>, \<open>H = [1]\<close>,
  \<open>R = [1]\<close>, \<open>z = [2]\<close>. The filter's buffers are at the addresses 0 to 9, the
  measurement's buffers \<open>H\<close>, \<open>z\<close>, \<open>R\<close>, \<open>y\<close>, \<open>S\<close>, \<open>K\<close> at 10 to 15, and the
  storage of the locals of \<^verbatim>\<open>kalman_correct\<close> at 16 to 19.
\<close>

definition scalar_heap :: "real heap" where
  "scalar_heap = (\<lambda>p. [])
     (0 := [1], 1 := [0], 4 := [1], 6 := [0], 7 := [0], 8 := [0],
      10 := [1], 11 := [2], 12 := [1], 13 := [0], 14 := [0], 15 := [0],
      16 := [0], 17 := [0], 18 := [0], 19 := [0])"

definition scalar_filter :: kalman_t where
  "scalar_filter =
     fst (kalman_filter_initialize blank_filter 1 0 0 1 2 3 4 5 6 7 8 9 scalar_heap)"

definition scalar_measurement :: kalman_measurement_t where
  "scalar_measurement =
     fst (kalman_measurement_initialize blank_measurement 1 1 10 11 12 13 14 15 scalar_heap)"

definition scalar_locals :: correct_locals where
  "scalar_locals = \<lparr>loc_aux = 16,
     loc_Sinv = \<lparr>rows = 1, cols = 1, data = 17\<rparr>,
     loc_temp = \<lparr>rows = 1, cols = 1, data = 18\<rparr>,
     loc_temp2 = \<lparr>rows = 1, cols = 1, data = 19\<rparr>\<rparr>"


text \<open>
  The two-state filter's memory with other contents in the four scratch
  buffers, and a measurement block with one measurement for it.
\<close>

definition dirty_scratch_heap :: "real heap" where
  "dirty_scratch_heap = two_state_heap(6 := [9, 9], 7 := [8, 8], 8 := [7, 7, 7, 7], 9 := [6, 6])"

definition two_state_measurement :: kalman_measurement_t where
  "two_state_measurement =
     fst (kalman_measurement_initialize blank_measurement 2 1 10 11 12 13 14 15 two_state_heap)"

text \<open>
  Cholesky factor and inverse for \<open>1 \<times> 1\<close> matrices over the reals: the factor
  of \<open>[s]\<close> is \<open>[sqrt s]\<close>, and the inverse of \<open>[l] \<cdot> [l]\<^sup>T\<close> is \<open>[1 / (l * l)]\<close>.
\<close>

definition scalar_ops :: "real triangular_ops" where
  "scalar_ops = \<lparr>chol_factor = (\<lambda>n. map sqrt), lower_inverse = (\<lambda>n. map (\<lambda>l. 1 / (l * l)))\<rparr>"

text \<open>The memory of the scalar filter after one time update with \<open>lambda = 1\<close>.\<close>

definition predicted_scalar_heap :: "real heap" where
  "predicted_scalar_heap = kalman_predict untouched_scratch scalar_filter 1 scalar_heap"

section \<open>An arithmetic with infinities and NaN\<close>

text \<open>
  Modelled from the spec: \<^verbatim>\<open>matrix_data_t\<close> is declared in \<^verbatim>\<open>matrix.h\<close>, not
  among the sources. The spec gives its arithmetic as standard floating-point
  arithmetic, in which a division by zero yields infinite or NaN values that
  propagate. \<open>xreal\<close> is the arithmetic of IEEE 754 on the real numbers, the two
  infinities and NaN: a finite result is the exact one, one divided by zero
  is \<open>+\<infinity>\<close>, zero divided by zero, zero times an infinity and the sum of the
  two infinities are NaN, and NaN propagates. It has no rounding, no overflow,
  no underflow and one zero.
\<close>

datatype xreal = Finite real | PInf | NInf | NaN

instantiation xreal :: "{zero, one, plus, times, inverse}"
begin

definition zero_xreal :: xreal where
  "zero_xreal = Finite 0"

definition one_xreal :: xreal where
  "one_xreal = Finite 1"

fun plus_xreal :: "xreal \<Rightarrow> xreal \<Rightarrow> xreal" where
  "plus_xreal (Finite a) (Finite b) = Finite (a + b)"
| "plus_xreal NaN y = NaN"
| "plus_xreal x NaN = NaN"
| "plus_xreal PInf NInf = NaN"
| "plus_xreal NInf PInf = NaN"
| "plus_xreal PInf y = PInf"
| "plus_xreal x PInf = PInf"
| "plus_xreal NInf y = NInf"
| "plus_xreal x NInf = NInf"

fun times_xreal :: "xreal \<Rightarrow> xreal \<Rightarrow> xreal" where
  "times_xreal (Finite a) (Finite b) = Finite (a * b)"
| "times_xreal NaN y = NaN"
| "times_xreal x NaN = NaN"
| "times_xreal PInf (Finite b) = (if b = 0 then NaN else if 0 < b then PInf else NInf)"
| "times_xreal (Finite a) PInf = (if a = 0 then NaN else if 0 < a then PInf else NInf)"
| "times_xreal NInf (Finite b) = (if b = 0 then NaN else if 0 < b then NInf else PInf)"
| "times_xreal (Finite a) NInf = (if a = 0 then NaN else if 0 < a then NInf else PInf)"
| "times_xreal PInf PInf = PInf"
| "times_xreal PInf NInf = NInf"
| "times_xreal NInf PInf = NInf"
| "times_xreal NInf NInf = PInf"

fun divide_xreal :: "xreal \<Rightarrow> xreal \<Rightarrow> xreal" where
  "divide_xreal (Finite a) (Finite b) =
     (if b = 0 then (if a = 0 then NaN else if 0 < a then PInf else NInf) else Finite (a / b))"
| "divide_xreal NaN y = NaN"
| "divide_xreal x NaN = NaN"
| "divide_xreal (Finite a) PInf = Finite 0"
| "divide_xreal (Finite a) NInf = Finite 0"
| "divide_xreal PInf (Finite b) = (if 0 \<le> b then PInf else NInf)"
| "divide_xreal NInf (Finite b) = (if 0 \<le> b then NInf else PInf)"
| "divide_xreal PInf PInf = NaN"
| "divide_xreal PInf NInf = NaN"
| "divide_xreal NInf PInf = NaN"
| "divide_xreal NInf NInf = NaN"

definition inverse_xreal :: "xreal \<Rightarrow> xreal" where
  "inverse_xreal x = divide (Finite 1) x"

instance ..

end





section \<open>Reading back what was written\<close>

lemma length_entries: "length (entries r c f) = r * c"
  by (simp add: entries_def)

lemma index_in_range:
  fixes i j r c :: nat
  assumes "i < r" "j < c"
  shows "i * c + j < r * c"
proof -
  have "i * c + j < i * c + c" using assms by simp
  also have "\<dots> = Suc i * c" by simp
  also have "\<dots> \<le> r * c" using assms by (intro mult_le_mono1) simp
  finally show ?thesis .
qed

lemma entries_nth: "i < r \<Longrightarrow> j < c \<Longrightarrow> entries r c f ! (i * c + j) = f i j"
  by (simp add: entries_def index_in_range)

lemma entries_cong:
  assumes "\<And>i j. i < r \<Longrightarrow> j < c \<Longrightarrow> f i j = g i j"
  shows "entries r c f = entries r c g"
proof -
  have "f (k div c) (k mod c) = g (k div c) (k mod c)" if "k < r * c" for k
  proof -
    have "0 < c" using that by (cases c) auto
    moreover have "k div c < r" using that by (simp add: less_mult_imp_div_less)
    ultimately show ?thesis using assms by simp
  qed
  then show ?thesis by (simp add: entries_def)
qed

lemma accumulate_cong:
  "(\<And>k. k < n \<Longrightarrow> f k = g k) \<Longrightarrow> accumulate n f = accumulate n g"
  by (induction n) simp_all

lemma mat_mult_cong:
  "(\<And>k. k < n \<Longrightarrow> a i k = a' i k) \<Longrightarrow> (\<And>k. k < n \<Longrightarrow> b k j = b' k j) \<Longrightarrow>
   mat_mult n a b i j = mat_mult n a' b' i j"
  unfolding mat_mult_def by (rule accumulate_cong) simp

lemma mat_mult_transb_cong:
  "(\<And>k. k < n \<Longrightarrow> a i k = a' i k) \<Longrightarrow> (\<And>k. k < n \<Longrightarrow> b j k = b' j k) \<Longrightarrow>
   mat_mult_transb n a b i j = mat_mult_transb n a' b' i j"
  unfolding mat_mult_transb_def by (rule accumulate_cong) simp

lemma write_matrix_apply:
  "write_matrix c f h p =
     (if p = data c then entries (rows c) (cols c) f @ drop (rows c * cols c) (h (data c)) else h p)"
  by (simp add: write_matrix_def)

lemma elem_write_matrix_same:
  "data m = data c \<Longrightarrow> cols m = cols c \<Longrightarrow> i < rows c \<Longrightarrow> j < cols c \<Longrightarrow>
   elem (write_matrix c f h) m i j = f i j"
  by (simp add: elem_def write_matrix_def nth_append length_entries index_in_range entries_nth)

lemma elem_write_matrix_other:
  "data m \<noteq> data c \<Longrightarrow> elem (write_matrix c f h) m = elem h m"
  by (simp add: elem_def write_matrix_def fun_eq_iff)

lemma elem_eqI: "h (data m) = h' (data m) \<Longrightarrow> elem h m = elem h' m"
  by (simp add: elem_def fun_eq_iff)

section \<open>The structures after initialisation\<close>

lemma matrix_init_eq: "matrix_init r c b h = (\<lparr>rows = r, cols = c, data = b\<rparr>, h)"
  by (simp add: matrix_init_def)

lemma kalman_filter_initialize_eq:
  "kalman_filter_initialize kf n m A x B u P Q aux predictedX temp_P temp_BQ h =
     (\<lparr>kf_x = \<lparr>rows = n, cols = 1, data = x\<rparr>,
       kf_A = \<lparr>rows = n, cols = n, data = A\<rparr>,
       kf_P = \<lparr>rows = n, cols = n, data = P\<rparr>,
       kf_u = \<lparr>rows = m, cols = 1, data = u\<rparr>,
       kf_B = \<lparr>rows = n, cols = m, data = B\<rparr>,
       kf_Q = \<lparr>rows = m, cols = m, data = Q\<rparr>,
       temporary = \<lparr>tmp_aux = aux,
         tmp_predicted_x = \<lparr>rows = n, cols = 1, data = predictedX\<rparr>,
         tmp_P = \<lparr>rows = n, cols = n, data = temp_P\<rparr>,
         tmp_BQ = \<lparr>rows = n, cols = m, data = temp_BQ\<rparr>\<rparr>\<rparr>, h)"
  by (simp add: kalman_filter_initialize_def matrix_init_def)

lemma kalman_measurement_initialize_eq:
  "kalman_measurement_initialize kfm n k H z R y S K h =
     (\<lparr>kfm_z = \<lparr>rows = k, cols = 1, data = z\<rparr>,
       kfm_H = \<lparr>rows = k, cols = n, data = H\<rparr>,
       kfm_R = \<lparr>rows = k, cols = k, data = R\<rparr>,
       kfm_y = \<lparr>rows = k, cols = 1, data = y\<rparr>,
       kfm_S = \<lparr>rows = k, cols = k, data = S\<rparr>,
       kfm_K = \<lparr>rows = n, cols = k, data = K\<rparr>\<rparr>, h)"
  by (simp add: kalman_measurement_initialize_def matrix_init_def)

section \<open>The memory after the time update\<close>

lemma kalman_predict_heap:
  fixes h :: "('a::{zero,one,plus,times,inverse}) heap"
  assumes init: "kalman_filter_initialize kf0 n m A x B u P Q aux predictedX temp_P temp_BQ h0 = (kf, h0')"
      and dist: "distinct [A, x, B, u, P, Q, aux, predictedX, temp_P, temp_BQ]"
  shows "kalman_predict scr kf lambda h =
     (let h4 = h(predictedX := entries n 1 (A_x h kf) @ drop (n * 1) (h predictedX),
              x := entries n 1 (A_x h kf) @ drop (n * 1) (h x),
              aux := scr (h A) (h P) (h aux),
              temp_P := entries n n (A_P h kf) @ drop (n * n) (h temp_P),
              P := entries n n (\<lambda>i j. A_P_At h kf i j * (1 / (lambda * lambda)))
                     @ drop (n * n) (h P))
      in if 0 < n
         then h4(aux := scr (h B) (h Q) (scr (h A) (h P) (h aux)),
                 temp_BQ := entries n m (B_Q h kf) @ drop (n * m) (h temp_BQ),
                 P := entries n n (\<lambda>i j. A_P_At h kf i j * (1 / (lambda * lambda)) + B_Q_Bt h kf i j)
                        @ drop (n * n) (h P))
         else h4)"
proof -
  define mA where "mA = \<lparr>rows = n, cols = n, data = A\<rparr>"
  define mP where "mP = \<lparr>rows = n, cols = n, data = P\<rparr>"
  define mx where "mx = \<lparr>rows = n, cols = 1, data = x\<rparr>"
  define mB where "mB = \<lparr>rows = n, cols = m, data = B\<rparr>"
  define mQ where "mQ = \<lparr>rows = m, cols = m, data = Q\<rparr>"
  define mxp where "mxp = \<lparr>rows = n, cols = 1, data = predictedX\<rparr>"
  define mtP where "mtP = \<lparr>rows = n, cols = n, data = temp_P\<rparr>"
  define mtBQ where "mtBQ = \<lparr>rows = n, cols = m, data = temp_BQ\<rparr>"
  note ms = mA_def mP_def mx_def mB_def mQ_def mxp_def mtP_def mtBQ_def
  have kf: "kf_A kf = mA" "kf_P kf = mP" "kf_x kf = mx" "kf_B kf = mB" "kf_Q kf = mQ"
    "tmp_aux (temporary kf) = aux" "tmp_predicted_x (temporary kf) = mxp"
    "tmp_P (temporary kf) = mtP" "tmp_BQ (temporary kf) = mtBQ"
    using init by (auto simp: kalman_filter_initialize_eq ms)
  have shapes [simp]:
    "rows mA = n" "cols mA = n" "data mA = A" "rows mP = n" "cols mP = n" "data mP = P"
    "rows mx = n" "cols mx = 1" "data mx = x" "rows mB = n" "cols mB = m" "data mB = B"
    "rows mQ = m" "cols mQ = m" "data mQ = Q" "rows mxp = n" "cols mxp = 1" "data mxp = predictedX"
    "rows mtP = n" "cols mtP = n" "data mtP = temp_P"
    "rows mtBQ = n" "cols mtBQ = m" "data mtBQ = temp_BQ"
    by (simp_all add: ms)
  have ne [simp]: "A \<noteq> x" "A \<noteq> P" "A \<noteq> aux" "A \<noteq> predictedX" "A \<noteq> temp_P" "A \<noteq> temp_BQ"
    "x \<noteq> P" "x \<noteq> aux" "x \<noteq> predictedX" "x \<noteq> temp_P" "x \<noteq> temp_BQ" "B \<noteq> x" "B \<noteq> P"
    "B \<noteq> aux" "B \<noteq> predictedX" "B \<noteq> temp_P" "B \<noteq> temp_BQ" "Q \<noteq> x" "Q \<noteq> P" "Q \<noteq> aux"
    "Q \<noteq> predictedX" "Q \<noteq> temp_P" "Q \<noteq> temp_BQ" "P \<noteq> aux" "P \<noteq> predictedX" "P \<noteq> temp_P"
    "P \<noteq> temp_BQ" "aux \<noteq> predictedX" "aux \<noteq> temp_P" "aux \<noteq> temp_BQ"
    "predictedX \<noteq> temp_P" "predictedX \<noteq> temp_BQ" "temp_P \<noteq> temp_BQ"
    using dist by auto
  note ne [symmetric, simp]
  define h1 where "h1 = matrix_mult_rowvector mA mx mxp h"
  define h2 where "h2 = matrix_copy mxp mx h1"
  define h3 where "h3 = matrix_mult scr mA mP mtP aux h2"
  define h4 where "h4 = matrix_multscale_transb mtP mA (1 / (lambda * lambda)) mP h3"
  define h5 where "h5 = matrix_mult scr mB mQ mtBQ aux h4"
  define h6 where "h6 = matrix_multadd_transb mtBQ mB mP h5"
  have run: "kalman_predict scr kf lambda h = (if 0 < n then h6 else h4)"
    by (simp add: kalman_predict_def kf Let_def h1_def h2_def h3_def h4_def h5_def h6_def)
  have Ax: "A_x h kf = mat_mult n (elem h mA) (elem h mx)"
    and AP: "A_P h kf = mat_mult n (elem h mA) (elem h mP)"
    and BQ: "B_Q h kf = mat_mult m (elem h mB) (elem h mQ)"
    by (simp_all add: A_x_def A_P_def B_Q_def kf)
  have APAt: "A_P_At h kf = mat_mult_transb n (A_P h kf) (elem h mA)"
    and BQBt: "B_Q_Bt h kf = mat_mult_transb m (B_Q h kf) (elem h mB)"
    by (simp_all add: A_P_At_def B_Q_Bt_def kf)
  have e1: "h1 = h(predictedX := entries n 1 (A_x h kf) @ drop (n * 1) (h predictedX))"
    by (simp add: h1_def matrix_mult_rowvector_def write_matrix_def Ax)
  have "entries n 1 (elem h1 mxp) = entries n 1 (A_x h kf)"
    by (rule entries_cong) (simp add: h1_def matrix_mult_rowvector_def elem_write_matrix_same Ax)
  then have e2: "h2 = h1(x := entries n 1 (A_x h kf) @ drop (n * 1) (h x))"
    by (simp add: h2_def matrix_copy_def write_matrix_def e1)
  have r2: "elem h2 mA = elem h mA" "elem h2 mP = elem h mP" "elem h2 mB = elem h mB"
    "elem h2 mQ = elem h mQ"
    by (rule elem_eqI, simp add: e2 e1)+
  have e3: "h3 = h2(aux := scr (h A) (h P) (h aux),
      temp_P := entries n n (A_P h kf) @ drop (n * n) (h temp_P))"
    by (simp add: h3_def matrix_mult_def write_matrix_def r2 AP) (simp add: e2 e1)
  have r3: "elem h3 mA = elem h mA" "elem h3 mB = elem h mB" "elem h3 mQ = elem h mQ"
    by (rule elem_eqI, simp add: e3 e2 e1)+
  have t3: "elem h3 mtP i j = A_P h kf i j" if "i < n" "j < n" for i j
    using that by (simp add: h3_def matrix_mult_def elem_write_matrix_same r2 AP)
  have m3: "mat_mult_transb n (elem h3 mtP) (elem h3 mA) i j = A_P_At h kf i j"
    if "i < n" "j < n" for i j
    unfolding APAt r3 by (rule mat_mult_transb_cong) (simp_all add: t3 that)
  have "entries n n (\<lambda>i j. mat_mult_transb n (elem h3 mtP) (elem h3 mA) i j * (1 / (lambda * lambda)))
      = entries n n (\<lambda>i j. A_P_At h kf i j * (1 / (lambda * lambda)))"
    by (rule entries_cong) (simp add: m3)
  then have e4: "h4 = h3(P := entries n n (\<lambda>i j. A_P_At h kf i j * (1 / (lambda * lambda)))
      @ drop (n * n) (h P))"
    by (simp add: h4_def matrix_multscale_transb_def write_matrix_def) (simp add: e3 e2 e1)
  have r4: "elem h4 mB = elem h mB" "elem h4 mQ = elem h mQ"
    by (rule elem_eqI, simp add: e4 e3 e2 e1)+
  have p4: "elem h4 mP i j = A_P_At h kf i j * (1 / (lambda * lambda))" if "i < n" "j < n" for i j
    using that by (simp add: h4_def matrix_multscale_transb_def elem_write_matrix_same m3)
  have e5: "h5 = h4(aux := scr (h B) (h Q) (scr (h A) (h P) (h aux)),
      temp_BQ := entries n m (B_Q h kf) @ drop (n * m) (h temp_BQ))"
    by (simp add: h5_def matrix_mult_def write_matrix_def r4 BQ) (simp add: e4 e3 e2 e1)
  have r5: "elem h5 mB = elem h mB"
    by (rule elem_eqI, simp add: e5 e4 e3 e2 e1)
  have t5: "elem h5 mtBQ i j = B_Q h kf i j" if "i < n" "j < m" for i j
    using that by (simp add: h5_def matrix_mult_def elem_write_matrix_same r4 BQ)
  have p5: "elem h5 mP i j = elem h4 mP i j" for i j
    by (simp add: elem_def e5)
  have m5: "mat_mult_transb m (elem h5 mtBQ) (elem h5 mB) i j = B_Q_Bt h kf i j"
    if "i < n" "j < n" for i j
    unfolding BQBt r5 by (rule mat_mult_transb_cong) (simp_all add: t5 that)
  have "entries n n (\<lambda>i j. elem h5 mP i j + mat_mult_transb m (elem h5 mtBQ) (elem h5 mB) i j)
      = entries n n (\<lambda>i j. A_P_At h kf i j * (1 / (lambda * lambda)) + B_Q_Bt h kf i j)"
    by (rule entries_cong) (simp add: p5 p4 m5)
  moreover have "drop (n * n) (h5 P) = drop (n * n) (h P)"
    by (simp add: e5 e4 e3 e2 e1 length_entries)
  ultimately have e6: "h6 = h5(P := entries n n (\<lambda>i j. A_P_At h kf i j * (1 / (lambda * lambda)) + B_Q_Bt h kf i j)
      @ drop (n * n) (h P))"
    by (simp add: h6_def matrix_multadd_transb_def write_matrix_def)
  show ?thesis
    unfolding run Let_def by (simp add: e6 e5 e4 e3 e2 e1)
qed

lemma drop_entries_append: "drop (r * c) (entries r c f @ ys) = ys"
  by (simp add: length_entries)

lemma init_fields:
  assumes "kalman_filter_initialize kf0 n m A x B u P Q aux predictedX temp_P temp_BQ h0 = (kf, h0')"
  shows "kf_A kf = \<lparr>rows = n, cols = n, data = A\<rparr>"
    and "kf_P kf = \<lparr>rows = n, cols = n, data = P\<rparr>"
    and "kf_x kf = \<lparr>rows = n, cols = 1, data = x\<rparr>"
    and "kf_B kf = \<lparr>rows = n, cols = m, data = B\<rparr>"
    and "kf_Q kf = \<lparr>rows = m, cols = m, data = Q\<rparr>"
    and "kf_u kf = \<lparr>rows = m, cols = 1, data = u\<rparr>"
    and "tmp_aux (temporary kf) = aux"
    and "tmp_predicted_x (temporary kf) = \<lparr>rows = n, cols = 1, data = predictedX\<rparr>"
    and "tmp_P (temporary kf) = \<lparr>rows = n, cols = n, data = temp_P\<rparr>"
    and "tmp_BQ (temporary kf) = \<lparr>rows = n, cols = m, data = temp_BQ\<rparr>"
    and "h0' = h0"
  using assms by (auto simp: kalman_filter_initialize_eq)

lemma predict_x:
  fixes h :: "('a::{zero,one,plus,times,inverse}) heap"
  assumes "kalman_filter_initialize kf0 n m A x B u P Q aux predictedX temp_P temp_BQ h0 = (kf, h0')"
      and "distinct [A, x, B, u, P, Q, aux, predictedX, temp_P, temp_BQ]"
  shows "kalman_predict scr kf lambda h x = entries n 1 (A_x h kf) @ drop (n * 1) (h x)"
  using assms(2) unfolding kalman_predict_heap [OF assms] Let_def by auto

lemma predict_predictedX:
  fixes h :: "('a::{zero,one,plus,times,inverse}) heap"
  assumes "kalman_filter_initialize kf0 n m A x B u P Q aux predictedX temp_P temp_BQ h0 = (kf, h0')"
      and "distinct [A, x, B, u, P, Q, aux, predictedX, temp_P, temp_BQ]"
  shows "kalman_predict scr kf lambda h predictedX =
           entries n 1 (A_x h kf) @ drop (n * 1) (h predictedX)"
  using assms(2) unfolding kalman_predict_heap [OF assms] Let_def by auto

lemma predict_temp_P:
  fixes h :: "('a::{zero,one,plus,times,inverse}) heap"
  assumes "kalman_filter_initialize kf0 n m A x B u P Q aux predictedX temp_P temp_BQ h0 = (kf, h0')"
      and "distinct [A, x, B, u, P, Q, aux, predictedX, temp_P, temp_BQ]"
  shows "kalman_predict scr kf lambda h temp_P =
           entries n n (A_P h kf) @ drop (n * n) (h temp_P)"
  using assms(2) unfolding kalman_predict_heap [OF assms] Let_def by auto

lemma predict_temp_BQ:
  fixes h :: "('a::{zero,one,plus,times,inverse}) heap"
  assumes "kalman_filter_initialize kf0 n m A x B u P Q aux predictedX temp_P temp_BQ h0 = (kf, h0')"
      and "distinct [A, x, B, u, P, Q, aux, predictedX, temp_P, temp_BQ]"
  shows "kalman_predict scr kf lambda h temp_BQ =
           entries n m (B_Q h kf) @ drop (n * m) (h temp_BQ)"
  using assms(2) unfolding kalman_predict_heap [OF assms] Let_def
  by (auto simp: entries_def)

lemma predict_P:
  fixes h :: "('a::{zero,one,plus,times,inverse}) heap"
  assumes "kalman_filter_initialize kf0 n m A x B u P Q aux predictedX temp_P temp_BQ h0 = (kf, h0')"
      and "distinct [A, x, B, u, P, Q, aux, predictedX, temp_P, temp_BQ]"
  shows "kalman_predict scr kf lambda h P =
           entries n n (\<lambda>i j. A_P_At h kf i j * (1 / (lambda * lambda)) + B_Q_Bt h kf i j)
             @ drop (n * n) (h P)"
  using assms(2) unfolding kalman_predict_heap [OF assms] Let_def
  by (auto simp: entries_def)


lemma predict_frame:
  fixes h :: "('a::{zero,one,plus,times,inverse}) heap"
  assumes "kalman_filter_initialize kf0 n m A x B u P Q aux predictedX temp_P temp_BQ h0 = (kf, h0')"
      and "distinct [A, x, B, u, P, Q, aux, predictedX, temp_P, temp_BQ]"
      and "p \<notin> {x, P, aux, predictedX, temp_P, temp_BQ}"
  shows "kalman_predict scr kf lambda h p = h p"
  using assms(3) unfolding kalman_predict_heap [OF assms(1,2)] Let_def by auto

lemma predict_elem_x:
  fixes h :: "('a::{zero,one,plus,times,inverse}) heap"
  assumes "kalman_filter_initialize kf0 n m A x B u P Q aux predictedX temp_P temp_BQ h0 = (kf, h0')"
      and "distinct [A, x, B, u, P, Q, aux, predictedX, temp_P, temp_BQ]"
      and "i < n"
  shows "elem (kalman_predict scr kf lambda h) (kf_x kf) i 0 = A_x h kf i 0"
  using entries_nth [of i n 0 1 "A_x h kf"] assms(3)
  by (simp add: elem_def init_fields [OF assms(1)] predict_x [OF assms(1,2)] nth_append
      length_entries)

lemma predict_elem_predictedX:
  fixes h :: "('a::{zero,one,plus,times,inverse}) heap"
  assumes "kalman_filter_initialize kf0 n m A x B u P Q aux predictedX temp_P temp_BQ h0 = (kf, h0')"
      and "distinct [A, x, B, u, P, Q, aux, predictedX, temp_P, temp_BQ]"
      and "i < n"
  shows "elem (kalman_predict scr kf lambda h) (tmp_predicted_x (temporary kf)) i 0 = A_x h kf i 0"
  using entries_nth [of i n 0 1 "A_x h kf"] assms(3)
  by (simp add: elem_def init_fields [OF assms(1)] predict_predictedX [OF assms(1,2)] nth_append
      length_entries)

lemma predict_elem_temp_P:
  fixes h :: "('a::{zero,one,plus,times,inverse}) heap"
  assumes "kalman_filter_initialize kf0 n m A x B u P Q aux predictedX temp_P temp_BQ h0 = (kf, h0')"
      and "distinct [A, x, B, u, P, Q, aux, predictedX, temp_P, temp_BQ]"
      and "i < n" "j < n"
  shows "elem (kalman_predict scr kf lambda h) (tmp_P (temporary kf)) i j = A_P h kf i j"
  using assms(3,4)
  by (simp add: elem_def init_fields [OF assms(1)] predict_temp_P [OF assms(1,2)] nth_append
      length_entries index_in_range entries_nth)

lemma predict_elem_temp_BQ:
  fixes h :: "('a::{zero,one,plus,times,inverse}) heap"
  assumes "kalman_filter_initialize kf0 n m A x B u P Q aux predictedX temp_P temp_BQ h0 = (kf, h0')"
      and "distinct [A, x, B, u, P, Q, aux, predictedX, temp_P, temp_BQ]"
      and "i < n" "j < m"
  shows "elem (kalman_predict scr kf lambda h) (tmp_BQ (temporary kf)) i j = B_Q h kf i j"
  using assms(3,4)
  by (simp add: elem_def init_fields [OF assms(1)] predict_temp_BQ [OF assms(1,2)] nth_append
      length_entries index_in_range entries_nth)

lemma predict_elem_P:
  fixes h :: "('a::{zero,one,plus,times,inverse}) heap"
  assumes "kalman_filter_initialize kf0 n m A x B u P Q aux predictedX temp_P temp_BQ h0 = (kf, h0')"
      and "distinct [A, x, B, u, P, Q, aux, predictedX, temp_P, temp_BQ]"
      and "i < n" "j < n"
  shows "elem (kalman_predict scr kf lambda h) (kf_P kf) i j =
           A_P_At h kf i j * (1 / (lambda * lambda)) + B_Q_Bt h kf i j"
  using assms(3,4)
  by (simp add: elem_def init_fields [OF assms(1)] predict_P [OF assms(1,2)] nth_append
      length_entries index_in_range entries_nth)

lemma entries_1_1: "entries 1 1 f = [f 0 0]"
  by (simp add: entries_def)

section \<open>A memory cell that an operation does not name\<close>

text \<open>
  An operation commutes with a write to a buffer that is none of its
  operands: it neither reads nor writes that buffer.
\<close>

lemma elem_upd_other: "p \<noteq> data m \<Longrightarrow> elem (h(p := v)) m = elem h m"
  by (simp add: elem_def fun_eq_iff)

lemma write_matrix_upd_other:
  "p \<noteq> data c \<Longrightarrow> write_matrix c f (h(p := v)) = (write_matrix c f h)(p := v)"
  by (auto simp: write_matrix_def fun_eq_iff)

lemma matrix_mult_rowvector_upd_other:
  "p \<notin> {data a, data x, data c} \<Longrightarrow>
   matrix_mult_rowvector a x c (h(p := v)) = (matrix_mult_rowvector a x c h)(p := v)"
  by (simp add: matrix_mult_rowvector_def elem_upd_other write_matrix_upd_other)

lemma matrix_multadd_rowvector_upd_other:
  "p \<notin> {data a, data x, data c} \<Longrightarrow>
   matrix_multadd_rowvector a x c (h(p := v)) = (matrix_multadd_rowvector a x c h)(p := v)"
  by (simp add: matrix_multadd_rowvector_def elem_upd_other write_matrix_upd_other)

lemma matrix_copy_upd_other:
  "p \<notin> {data src, data dst} \<Longrightarrow>
   matrix_copy src dst (h(p := v)) = (matrix_copy src dst h)(p := v)"
  by (simp add: matrix_copy_def elem_upd_other write_matrix_upd_other)

lemma matrix_mult_upd_other:
  "p \<notin> {data a, data b, data c, baux} \<Longrightarrow>
   matrix_mult scr a b c baux (h(p := v)) = (matrix_mult scr a b c baux h)(p := v)"
proof -
  assume "p \<notin> {data a, data b, data c, baux}"
  then have ne: "p \<noteq> data a" "p \<noteq> data b" "p \<noteq> data c" "p \<noteq> baux"
    by simp_all
  have "h(p := v, baux := scr (h (data a)) (h (data b)) (h baux))
      = (h(baux := scr (h (data a)) (h (data b)) (h baux)))(p := v)"
    using ne(4) by (rule fun_upd_twist)
  then show ?thesis
    using ne by (simp add: matrix_mult_def elem_upd_other write_matrix_upd_other)
qed

lemma matrix_mult_transb_upd_other:
  "p \<notin> {data a, data b, data c} \<Longrightarrow>
   matrix_mult_transb a b c (h(p := v)) = (matrix_mult_transb a b c h)(p := v)"
  by (simp add: matrix_mult_transb_def elem_upd_other write_matrix_upd_other)

lemma matrix_multadd_transb_upd_other:
  "p \<notin> {data a, data b, data c} \<Longrightarrow>
   matrix_multadd_transb a b c (h(p := v)) = (matrix_multadd_transb a b c h)(p := v)"
  by (simp add: matrix_multadd_transb_def elem_upd_other write_matrix_upd_other)

lemma matrix_multscale_transb_upd_other:
  "p \<notin> {data a, data b, data c} \<Longrightarrow>
   matrix_multscale_transb a b s c (h(p := v)) = (matrix_multscale_transb a b s c h)(p := v)"
  by (simp add: matrix_multscale_transb_def elem_upd_other write_matrix_upd_other)

lemma matrix_add_inplace_upd_other:
  "p \<notin> {data a, data b} \<Longrightarrow>
   matrix_add_inplace a b (h(p := v)) = (matrix_add_inplace a b h)(p := v)"
  by (simp add: matrix_add_inplace_def elem_upd_other write_matrix_upd_other)

lemma matrix_sub_inplace_b_upd_other:
  "p \<notin> {data a, data b} \<Longrightarrow>
   matrix_sub_inplace_b a b (h(p := v)) = (matrix_sub_inplace_b a b h)(p := v)"
  by (simp add: matrix_sub_inplace_b_def elem_upd_other write_matrix_upd_other)

lemma matrix_sub_upd_other:
  "p \<notin> {data a, data b, data c} \<Longrightarrow>
   matrix_sub a b c (h(p := v)) = (matrix_sub a b c h)(p := v)"
  by (simp add: matrix_sub_def elem_upd_other write_matrix_upd_other)

lemma cholesky_decompose_lower_upd_other:
  "p \<noteq> data m \<Longrightarrow>
   cholesky_decompose_lower ops m (h(p := v)) = (cholesky_decompose_lower ops m h)(p := v)"
  by (simp add: cholesky_decompose_lower_def fun_upd_twist)

lemma matrix_invert_lower_upd_other:
  "p \<notin> {data lower, data dst} \<Longrightarrow>
   matrix_invert_lower ops lower dst (h(p := v)) = (matrix_invert_lower ops lower dst h)(p := v)"
  by (simp add: matrix_invert_lower_def fun_upd_twist)

lemmas upd_other = matrix_mult_rowvector_upd_other matrix_multadd_rowvector_upd_other
  matrix_copy_upd_other matrix_mult_upd_other matrix_mult_transb_upd_other
  matrix_multadd_transb_upd_other matrix_multscale_transb_upd_other
  matrix_add_inplace_upd_other matrix_sub_inplace_b_upd_other matrix_sub_upd_other
  cholesky_decompose_lower_upd_other matrix_invert_lower_upd_other

lemma kalman_predict_upd_other:
  assumes "p \<notin> {data (kf_A kf), data (kf_x kf), data (kf_P kf), data (kf_B kf), data (kf_Q kf),
             tmp_aux (temporary kf), data (tmp_predicted_x (temporary kf)),
             data (tmp_P (temporary kf)), data (tmp_BQ (temporary kf))}"
  shows "kalman_predict scr kf lambda (h(p := v)) = (kalman_predict scr kf lambda h)(p := v)"
  using assms by (simp add: kalman_predict_def Let_def upd_other)

lemma kalman_correct_steps_upd_other:
  assumes "p \<notin> {data (kf_x kf), data (kf_P kf), data (kfm_z kfm), data (kfm_H kfm),
             data (kfm_R kfm), data (kfm_y kfm), data (kfm_S kfm), data (kfm_K kfm),
             loc_aux loc, data (loc_Sinv loc), data (loc_temp loc), data (loc_temp2 loc)}"
  shows "kalman_correct_steps scr ops loc kf kfm (h(p := v))
           = (kalman_correct_steps scr ops loc kf kfm h)(p := v)"
  using assms by (simp add: kalman_correct_steps_def Let_def upd_other)

lemma predict_values_cong:
  assumes "kalman_filter_initialize kf0 n m A x B u P Q aux predictedX temp_P temp_BQ h0 = (kf, h0')"
      and "g A = h A" "g x = h x" "g B = h B" "g P = h P" "g Q = h Q"
  shows "A_x g kf = A_x h kf" "A_P_At g kf = A_P_At h kf" "B_Q_Bt g kf = B_Q_Bt h kf"
proof -
  have "elem g (kf_A kf) = elem h (kf_A kf)" "elem g (kf_x kf) = elem h (kf_x kf)"
    "elem g (kf_B kf) = elem h (kf_B kf)" "elem g (kf_P kf) = elem h (kf_P kf)"
    "elem g (kf_Q kf) = elem h (kf_Q kf)"
    using assms(2-) by (simp_all add: elem_def fun_eq_iff init_fields [OF assms(1)])
  then show "A_x g kf = A_x h kf" "A_P_At g kf = A_P_At h kf" "B_Q_Bt g kf = B_Q_Bt h kf"
    by (simp_all add: A_x_def A_P_At_def A_P_def B_Q_Bt_def B_Q_def)
qed

section \<open>Exact arithmetic\<close>




section \<open>The example filters, evaluated\<close>

lemma accumulate_numeral:
  "accumulate (numeral k) f = accumulate (pred_numeral k) f + f (pred_numeral k)"
  by (simp add: numeral_eq_Suc)

lemma two_state_init:
  "kalman_filter_initialize blank_filter 2 1 0 1 2 3 4 5 6 7 8 9 two_state_heap
     = (two_state_filter, two_state_heap)"
  by (simp add: two_state_filter_def kalman_filter_initialize_eq)

lemma scalar_init:
  "kalman_filter_initialize blank_filter 1 0 0 1 2 3 4 5 6 7 8 9 scalar_heap
     = (scalar_filter, scalar_heap)"
  by (simp add: scalar_filter_def kalman_filter_initialize_eq)

lemma buffers_distinct: "distinct [0, 1, 2, 3, 4, 5, 6, 7, 8, 9 :: nat]"
  by simp

lemmas two_state_eval = two_state_filter_def kalman_filter_initialize_eq two_state_heap_def
  A_x_def A_P_def A_P_At_def B_Q_def B_Q_Bt_def mat_mult_def mat_mult_transb_def elem_def
  accumulate_numeral

lemmas scalar_eval = scalar_filter_def kalman_filter_initialize_eq scalar_heap_def
  A_x_def A_P_def A_P_At_def B_Q_def B_Q_Bt_def mat_mult_def mat_mult_transb_def elem_def




section \<open>The memory after the statements of the measurement update\<close>

text \<open>
  The statements of lines 138 to 188 write \<open>H\<cdot>P\<close> and \<open>P\<cdot>H\<^sup>T\<close> through the one
  header \<open>temp\<close> and multiply with \<open>temp\<close> on the left, whose column count is
  the inner dimension. That fits both products only when the number of
  measurements is the number of states, \<open>n\<close>, and \<open>temp\<close> is \<open>n \<times> n\<close>. For
  that case, with \<open>Sinv\<close> and \<open>temp2\<close> \<open>n \<times> n\<close> and twelve different buffers,
  the memory they leave is the following.
\<close>

lemma measurement_fields:
  assumes "kalman_measurement_initialize kfm0 n k H z R y S K g0 = (kfm, g0')"
  shows "kfm_H kfm = \<lparr>rows = k, cols = n, data = H\<rparr>"
    and "kfm_R kfm = \<lparr>rows = k, cols = k, data = R\<rparr>"
    and "kfm_z kfm = \<lparr>rows = k, cols = 1, data = z\<rparr>"
    and "kfm_K kfm = \<lparr>rows = n, cols = k, data = K\<rparr>"
    and "kfm_S kfm = \<lparr>rows = k, cols = k, data = S\<rparr>"
    and "kfm_y kfm = \<lparr>rows = k, cols = 1, data = y\<rparr>"
    and "g0' = g0"
  using assms by (auto simp: kalman_measurement_initialize_eq)

lemma kalman_correct_steps_heap:
  fixes h :: "('a::{zero,plus,minus,times}) heap"
  assumes init: "kalman_filter_initialize kf0 n m A x B u P Q aux predictedX temp_P temp_BQ h0 = (kf, h0')"
      and minit: "kalman_measurement_initialize kfm0 n n H z R y S K g0 = (kfm, g0')"
      and loc: "loc = \<lparr>loc_aux = laux, loc_Sinv = \<lparr>rows = n, cols = n, data = Sinv\<rparr>,
                  loc_temp = \<lparr>rows = n, cols = n, data = temp\<rparr>,
                  loc_temp2 = \<lparr>rows = n, cols = n, data = temp2\<rparr>\<rparr>"
      and dist: "distinct [x, P, H, z, R, y, S, K, laux, Sinv, temp, temp2]"
  shows "kalman_correct_steps scr ops loc kf kfm h =
     h(y := entries n 1 (innovation h kf kfm) @ drop (n * 1) (h y),
       S := residual_factor ops h kf kfm,
       Sinv := lower_inverse ops n (residual_factor ops h kf kfm),
       K := entries n n (gain ops h kf kfm) @ drop (n * n) (h K),
       x := entries n 1 (corrected_state ops h kf kfm) @ drop (n * 1) (h x),
       temp := entries n n (H_P h kf kfm) @ drop (n * n) (h temp),
       laux := scr (entries n n (gain ops h kf kfm) @ drop (n * n) (h K))
                 (entries n n (H_P h kf kfm) @ drop (n * n) (h temp))
                 (scr (h H) (h P)
                   (scr (entries n n (mat_mult_transb n (elem h (kf_P kf)) (elem h (kfm_H kfm)))
                           @ drop (n * n) (h temp))
                        (lower_inverse ops n (residual_factor ops h kf kfm))
                        (scr (h H) (h P) (h laux)))),
       temp2 := entries n n (mat_mult n (gain ops h kf kfm) (H_P h kf kfm)) @ drop (n * n) (h temp2),
       P := entries n n (corrected_covariance ops h kf kfm) @ drop (n * n) (h P))"
proof -
  define mP where "mP = \<lparr>rows = n, cols = n, data = P\<rparr>"
  define mx where "mx = \<lparr>rows = n, cols = 1, data = x\<rparr>"
  define mH where "mH = \<lparr>rows = n, cols = n, data = H\<rparr>"
  define mR where "mR = \<lparr>rows = n, cols = n, data = R\<rparr>"
  define mz where "mz = \<lparr>rows = n, cols = 1, data = z\<rparr>"
  define mK where "mK = \<lparr>rows = n, cols = n, data = K\<rparr>"
  define mS where "mS = \<lparr>rows = n, cols = n, data = S\<rparr>"
  define my where "my = \<lparr>rows = n, cols = 1, data = y\<rparr>"
  define mSinv where "mSinv = \<lparr>rows = n, cols = n, data = Sinv\<rparr>"
  define mt where "mt = \<lparr>rows = n, cols = n, data = temp\<rparr>"
  define mt2 where "mt2 = \<lparr>rows = n, cols = n, data = temp2\<rparr>"
  note ms = mP_def mx_def mH_def mR_def mz_def mK_def mS_def my_def mSinv_def mt_def mt2_def
  have kf: "kf_P kf = mP" "kf_x kf = mx"
    by (simp_all add: init_fields [OF init] ms)
  have kfm: "kfm_H kfm = mH" "kfm_R kfm = mR" "kfm_z kfm = mz" "kfm_K kfm = mK" "kfm_S kfm = mS"
    "kfm_y kfm = my"
    by (simp_all add: measurement_fields [OF minit] ms)
  have lc: "loc_aux loc = laux" "loc_Sinv loc = mSinv" "loc_temp loc = mt" "loc_temp2 loc = mt2"
    by (simp_all add: loc ms)
  have shapes [simp]:
    "rows mP = n" "cols mP = n" "data mP = P" "rows mx = n" "cols mx = 1" "data mx = x"
    "rows mH = n" "cols mH = n" "data mH = H" "rows mR = n" "cols mR = n" "data mR = R"
    "rows mz = n" "cols mz = 1" "data mz = z" "rows mK = n" "cols mK = n" "data mK = K"
    "rows mS = n" "cols mS = n" "data mS = S" "rows my = n" "cols my = 1" "data my = y"
    "rows mSinv = n" "cols mSinv = n" "data mSinv = Sinv" "rows mt = n" "cols mt = n"
    "data mt = temp" "rows mt2 = n" "cols mt2 = n" "data mt2 = temp2"
    by (simp_all add: ms)
  have ne [simp]:
    "x \<noteq> P" "x \<noteq> H" "x \<noteq> z" "x \<noteq> R" "x \<noteq> y" "x \<noteq> S" "x \<noteq> K" "x \<noteq> laux" "x \<noteq> Sinv"
    "x \<noteq> temp" "x \<noteq> temp2"
    "P \<noteq> H" "P \<noteq> z" "P \<noteq> R" "P \<noteq> y" "P \<noteq> S" "P \<noteq> K" "P \<noteq> laux" "P \<noteq> Sinv" "P \<noteq> temp"
    "P \<noteq> temp2"
    "H \<noteq> z" "H \<noteq> R" "H \<noteq> y" "H \<noteq> S" "H \<noteq> K" "H \<noteq> laux" "H \<noteq> Sinv" "H \<noteq> temp" "H \<noteq> temp2"
    "z \<noteq> R" "z \<noteq> y" "z \<noteq> S" "z \<noteq> K" "z \<noteq> laux" "z \<noteq> Sinv" "z \<noteq> temp" "z \<noteq> temp2"
    "R \<noteq> y" "R \<noteq> S" "R \<noteq> K" "R \<noteq> laux" "R \<noteq> Sinv" "R \<noteq> temp" "R \<noteq> temp2"
    "y \<noteq> S" "y \<noteq> K" "y \<noteq> laux" "y \<noteq> Sinv" "y \<noteq> temp" "y \<noteq> temp2"
    "S \<noteq> K" "S \<noteq> laux" "S \<noteq> Sinv" "S \<noteq> temp" "S \<noteq> temp2"
    "K \<noteq> laux" "K \<noteq> Sinv" "K \<noteq> temp" "K \<noteq> temp2"
    "laux \<noteq> Sinv" "laux \<noteq> temp" "laux \<noteq> temp2"
    "Sinv \<noteq> temp" "Sinv \<noteq> temp2" "temp \<noteq> temp2"
    using dist by auto
  note ne [symmetric, simp]
  note length_entries [simp]
  define h1 where "h1 = matrix_mult_rowvector mH mx my h"
  define h2 where "h2 = matrix_sub_inplace_b mz my h1"
  define h3 where "h3 = matrix_mult scr mH mP mt laux h2"
  define h4 where "h4 = matrix_mult_transb mt mH mS h3"
  define h5 where "h5 = matrix_add_inplace mS mR h4"
  define h6 where "h6 = cholesky_decompose_lower ops mS h5"
  define h7 where "h7 = matrix_invert_lower ops mS mSinv h6"
  define h8 where "h8 = matrix_mult_transb mP mH mt h7"
  define h9 where "h9 = matrix_mult scr mt mSinv mK laux h8"
  define h10 where "h10 = matrix_multadd_rowvector mK my mx h9"
  define h11 where "h11 = matrix_mult scr mH mP mt laux h10"
  define h12 where "h12 = matrix_mult scr mK mt mt2 laux h11"
  define h13 where "h13 = matrix_sub mP mt2 mP h12"
  have run: "kalman_correct_steps scr ops loc kf kfm h = h13"
    by (simp add: kalman_correct_steps_def kf kfm lc Let_def h1_def h2_def h3_def h4_def h5_def
        h6_def h7_def h8_def h9_def h10_def h11_def h12_def h13_def)
  define Hx where "Hx = mat_mult n (elem h mH) (elem h mx)"
  define PHt where "PHt = mat_mult_transb n (elem h mP) (elem h mH)"
  have inn: "innovation h kf kfm = (\<lambda>i j. elem h mz i j - Hx i j)"
    and HP: "H_P h kf kfm = mat_mult n (elem h mH) (elem h mP)"
    and res: "residual_covariance h kf kfm
        = (\<lambda>i j. mat_mult_transb n (H_P h kf kfm) (elem h mH) i j + elem h mR i j)"
    and fac: "residual_factor ops h kf kfm
        = chol_factor ops n (entries n n (residual_covariance h kf kfm) @ drop (n * n) (h S))"
    and rinv: "residual_inverse ops h kf kfm
        = (\<lambda>i j. lower_inverse ops n (residual_factor ops h kf kfm) ! (i * n + j))"
    and gn: "gain ops h kf kfm = mat_mult n PHt (residual_inverse ops h kf kfm)"
    and cs: "corrected_state ops h kf kfm
        = (\<lambda>i j. elem h mx i j + mat_mult n (gain ops h kf kfm) (innovation h kf kfm) i j)"
    and cc: "corrected_covariance ops h kf kfm
        = (\<lambda>i j. elem h mP i j - mat_mult n (gain ops h kf kfm) (H_P h kf kfm) i j)"
    by (simp_all add: innovation_def H_P_def residual_covariance_def residual_factor_def
        residual_inverse_def gain_def corrected_state_def corrected_covariance_def kf kfm
        Hx_def PHt_def fun_eq_iff)
  \<comment> \<open>\<open>y = H\<cdot>x\<close>, then \<open>y = z - y\<close>\<close>
  have e1: "h1 = h(y := entries n 1 Hx @ drop (n * 1) (h y))"
    by (simp add: h1_def matrix_mult_rowvector_def write_matrix_def Hx_def)
  have y1: "elem h1 my i j = Hx i j" if "i < n" "j < 1" for i j
    using that by (simp add: h1_def matrix_mult_rowvector_def elem_write_matrix_same Hx_def)
  have z1: "elem h1 mz = elem h mz"
    by (rule elem_eqI) (simp add: e1)
  have "entries n 1 (\<lambda>i j. elem h1 mz i j - elem h1 my i j) = entries n 1 (innovation h kf kfm)"
    by (rule entries_cong) (simp add: z1 y1 inn)
  moreover have "drop (n * 1) (h1 y) = drop (n * 1) (h y)"
    by (simp add: e1)
  ultimately have e2: "h2 = h1(y := entries n 1 (innovation h kf kfm) @ drop (n * 1) (h y))"
    by (simp add: h2_def matrix_sub_inplace_b_def write_matrix_def)
  have y2: "elem h2 my i j = innovation h kf kfm i j" if "i < n" "j < 1" for i j
    using that by (simp add: h2_def matrix_sub_inplace_b_def elem_write_matrix_same z1 y1 inn)
  have r2: "elem h2 mH = elem h mH" "elem h2 mP = elem h mP" "elem h2 mR = elem h mR"
    "elem h2 mx = elem h mx"
    by (rule elem_eqI, simp add: e2 e1)+
  \<comment> \<open>\<open>temp = H\<cdot>P\<close>, \<open>S = temp\<cdot>H\<^sup>T\<close>, \<open>S += R\<close>\<close>
  have e3: "h3 = h2(laux := scr (h H) (h P) (h laux),
      temp := entries n n (H_P h kf kfm) @ drop (n * n) (h temp))"
    by (simp add: h3_def matrix_mult_def write_matrix_def r2 HP) (simp add: e2 e1)
  have t3: "elem h3 mt i j = H_P h kf kfm i j" if "i < n" "j < n" for i j
    using that by (simp add: h3_def matrix_mult_def elem_write_matrix_same r2 HP)
  have r3: "elem h3 mH = elem h mH" "elem h3 mP = elem h mP" "elem h3 mR = elem h mR"
    "elem h3 mx = elem h mx"
    by (rule elem_eqI, simp add: e3 e2 e1)+
  have m3: "mat_mult_transb n (elem h3 mt) (elem h3 mH) i j
      = mat_mult_transb n (H_P h kf kfm) (elem h mH) i j" if "i < n" for i j
    unfolding r3 by (rule mat_mult_transb_cong) (simp_all add: t3 that)
  have s4: "elem h4 mS i j = mat_mult_transb n (H_P h kf kfm) (elem h mH) i j"
    if "i < n" "j < n" for i j
    using that by (simp add: h4_def matrix_mult_transb_def elem_write_matrix_same m3)
  have r4: "elem h4 mR = elem h mR"
    by (simp add: h4_def matrix_mult_transb_def elem_write_matrix_other r3)
  have d4: "drop (n * n) (h4 S) = drop (n * n) (h S)"
    by (simp add: h4_def matrix_mult_transb_def write_matrix_def e3 e2 e1)
  have "entries n n (\<lambda>i j. elem h4 mS i j + elem h4 mR i j)
      = entries n n (residual_covariance h kf kfm)"
    by (rule entries_cong) (simp add: s4 r4 res)
  then have s5: "h5 S = entries n n (residual_covariance h kf kfm) @ drop (n * n) (h S)"
    by (simp add: h5_def matrix_add_inplace_def write_matrix_def d4)
  have s6: "h6 S = residual_factor ops h kf kfm"
    by (simp add: h6_def cholesky_decompose_lower_def s5 fac)
  have o5: "h5 p = h3 p" if "p \<noteq> S" for p
    using that by (simp add: h5_def h4_def matrix_add_inplace_def matrix_mult_transb_def
        write_matrix_def)
  have e6: "h6 = h3(S := residual_factor ops h kf kfm)"
    using s6 o5 by (auto simp: fun_eq_iff h6_def cholesky_decompose_lower_def)
  have e7: "h7 = h6(Sinv := lower_inverse ops n (residual_factor ops h kf kfm))"
    by (simp add: h7_def matrix_invert_lower_def s6)
  have r7: "elem h7 mH = elem h mH" "elem h7 mP = elem h mP" "elem h7 mx = elem h mx"
    by (rule elem_eqI, simp add: e7 e6 e3 e2 e1)+
  have i7: "elem h7 mSinv = residual_inverse ops h kf kfm"
    by (simp add: elem_def e7 rinv fun_eq_iff)
  \<comment> \<open>\<open>temp = P\<cdot>H\<^sup>T\<close>, \<open>K = temp\<cdot>Sinv\<close>\<close>
  have e8: "h8 = h7(temp := entries n n PHt @ drop (n * n) (h temp))"
    by (simp add: h8_def matrix_mult_transb_def write_matrix_def r7 PHt_def)
      (simp add: e7 e6 e3 e2 e1)
  have t8: "elem h8 mt i j = PHt i j" if "i < n" "j < n" for i j
    using that by (simp add: h8_def matrix_mult_transb_def elem_write_matrix_same r7 PHt_def)
  have i8: "elem h8 mSinv = residual_inverse ops h kf kfm"
    by (simp add: h8_def matrix_mult_transb_def elem_write_matrix_other i7)
  have m8: "mat_mult n (elem h8 mt) (elem h8 mSinv) i j = gain ops h kf kfm i j"
    if "i < n" for i j
    unfolding i8 gn by (rule mat_mult_cong) (simp_all add: t8 that)
  have "entries n n (mat_mult n (elem h8 mt) (elem h8 mSinv)) = entries n n (gain ops h kf kfm)"
    by (rule entries_cong) (simp add: m8)
  then have e9: "h9 = h8(laux := scr (entries n n PHt @ drop (n * n) (h temp))
        (lower_inverse ops n (residual_factor ops h kf kfm)) (scr (h H) (h P) (h laux)),
      K := entries n n (gain ops h kf kfm) @ drop (n * n) (h K))"
    by (simp add: h9_def matrix_mult_def write_matrix_def) (simp add: e8 e7 e6 e3 e2 e1)
  have k9: "elem h9 mK i j = gain ops h kf kfm i j" if "i < n" "j < n" for i j
    using that by (simp add: h9_def matrix_mult_def elem_write_matrix_same m8)
  have y9: "elem h9 my = elem h2 my"
    by (rule elem_eqI) (simp add: e9 e8 e7 e6 e3)
  have x9: "elem h9 mx = elem h mx"
    by (rule elem_eqI) (simp add: e9 e8 e7 e6 e3 e2 e1)
  \<comment> \<open>\<open>x = x + K\<cdot>y\<close>\<close>
  have m9: "mat_mult n (elem h9 mK) (elem h9 my) i j
      = mat_mult n (gain ops h kf kfm) (innovation h kf kfm) i j" if "i < n" "j < 1" for i j
    unfolding y9 by (rule mat_mult_cong) (insert that, simp_all add: k9 y2)
  have "entries n 1 (\<lambda>i j. elem h9 mx i j + mat_mult n (elem h9 mK) (elem h9 my) i j)
      = entries n 1 (corrected_state ops h kf kfm)"
    by (rule entries_cong) (simp add: m9 x9 cs)
  moreover have "drop (n * 1) (h9 x) = drop (n * 1) (h x)"
    by (simp add: e9 e8 e7 e6 e3 e2 e1)
  ultimately have e10: "h10 = h9(x := entries n 1 (corrected_state ops h kf kfm)
      @ drop (n * 1) (h x))"
    by (simp add: h10_def matrix_multadd_rowvector_def write_matrix_def)
  have r10: "elem h10 mH = elem h mH" "elem h10 mP = elem h mP"
    by (rule elem_eqI, simp add: e10 e9 e8 e7 e6 e3 e2 e1)+
  \<comment> \<open>\<open>temp = H\<cdot>P\<close>, \<open>temp2 = K\<cdot>temp\<close>, \<open>P = P - temp2\<close>\<close>
  have e11: "h11 = h10(laux := scr (h H) (h P) (h10 laux),
      temp := entries n n (H_P h kf kfm) @ drop (n * n) (h temp))"
    by (simp add: h11_def matrix_mult_def write_matrix_def r10 HP)
      (simp add: e10 e9 e8 e7 e6 e3 e2 e1)
  have t11: "elem h11 mt i j = H_P h kf kfm i j" if "i < n" "j < n" for i j
    using that by (simp add: h11_def matrix_mult_def elem_write_matrix_same r10 HP)
  have k11: "elem h11 mK = elem h9 mK"
    by (rule elem_eqI) (simp add: e11 e10)
  have p11: "elem h11 mP = elem h mP"
    by (rule elem_eqI) (simp add: e11 e10 e9 e8 e7 e6 e3 e2 e1)
  have m11: "mat_mult n (elem h11 mK) (elem h11 mt) i j
      = mat_mult n (gain ops h kf kfm) (H_P h kf kfm) i j" if "i < n" "j < n" for i j
    unfolding k11 by (rule mat_mult_cong) (simp_all add: k9 t11 that)
  have "entries n n (mat_mult n (elem h11 mK) (elem h11 mt))
      = entries n n (mat_mult n (gain ops h kf kfm) (H_P h kf kfm))"
    by (rule entries_cong) (simp add: m11)
  then have e12: "h12 = h11(laux := scr (h11 K) (h11 temp) (h11 laux),
      temp2 := entries n n (mat_mult n (gain ops h kf kfm) (H_P h kf kfm))
        @ drop (n * n) (h temp2))"
    by (simp add: h12_def matrix_mult_def write_matrix_def)
      (simp add: e11 e10 e9 e8 e7 e6 e3 e2 e1)
  have t12: "elem h12 mt2 i j = mat_mult n (gain ops h kf kfm) (H_P h kf kfm) i j"
    if "i < n" "j < n" for i j
    using that by (simp add: h12_def matrix_mult_def elem_write_matrix_same m11)
  have p12: "elem h12 mP = elem h mP"
    by (rule elem_eqI) (simp add: e12 e11 e10 e9 e8 e7 e6 e3 e2 e1)
  have "entries n n (\<lambda>i j. elem h12 mP i j - elem h12 mt2 i j)
      = entries n n (corrected_covariance ops h kf kfm)"
    by (rule entries_cong) (simp add: p12 t12 cc)
  moreover have "drop (n * n) (h12 P) = drop (n * n) (h P)"
    by (simp add: e12 e11 e10 e9 e8 e7 e6 e3 e2 e1)
  ultimately have e13: "h13 = h12(P := entries n n (corrected_covariance ops h kf kfm)
      @ drop (n * n) (h P))"
    by (simp add: h13_def matrix_sub_def write_matrix_def)
  show ?thesis
    unfolding run
    by (rule ext) (simp add: e13 e12 e11 e10 e9 e8 e7 e6 e3 e2 e1 PHt_def kf kfm)
qed

lemma correct_steps_buffers:
  fixes h :: "('a::{zero,plus,minus,times}) heap"
  assumes "kalman_filter_initialize kf0 n m A x B u P Q aux predictedX temp_P temp_BQ h0 = (kf, h0')"
      and "kalman_measurement_initialize kfm0 n n H z R y S K g0 = (kfm, g0')"
      and "loc = \<lparr>loc_aux = laux, loc_Sinv = \<lparr>rows = n, cols = n, data = Sinv\<rparr>,
                  loc_temp = \<lparr>rows = n, cols = n, data = temp\<rparr>,
                  loc_temp2 = \<lparr>rows = n, cols = n, data = temp2\<rparr>\<rparr>"
      and "distinct [x, P, H, z, R, y, S, K, laux, Sinv, temp, temp2]"
  shows "kalman_correct_steps scr ops loc kf kfm h y
           = entries n 1 (innovation h kf kfm) @ drop (n * 1) (h y)"
    and "kalman_correct_steps scr ops loc kf kfm h S = residual_factor ops h kf kfm"
    and "kalman_correct_steps scr ops loc kf kfm h Sinv
           = lower_inverse ops n (residual_factor ops h kf kfm)"
    and "kalman_correct_steps scr ops loc kf kfm h K
           = entries n n (gain ops h kf kfm) @ drop (n * n) (h K)"
    and "kalman_correct_steps scr ops loc kf kfm h x
           = entries n 1 (corrected_state ops h kf kfm) @ drop (n * 1) (h x)"
    and "kalman_correct_steps scr ops loc kf kfm h P
           = entries n n (corrected_covariance ops h kf kfm) @ drop (n * n) (h P)"
  using assms(4) unfolding kalman_correct_steps_heap [OF assms] by auto

text \<open>The scalar example, evaluated.\<close>

lemma scalar_measurement_init:
  "kalman_measurement_initialize blank_measurement 1 1 10 11 12 13 14 15 scalar_heap
     = (scalar_measurement, scalar_heap)"
  by (simp add: scalar_measurement_def kalman_measurement_initialize_eq)

lemma scalar_locals_eq:
  "scalar_locals = \<lparr>loc_aux = 16, loc_Sinv = \<lparr>rows = 1, cols = 1, data = 17\<rparr>,
     loc_temp = \<lparr>rows = 1, cols = 1, data = 18\<rparr>, loc_temp2 = \<lparr>rows = 1, cols = 1, data = 19\<rparr>\<rparr>"
  by (simp add: scalar_locals_def)

lemma correct_buffers_distinct: "distinct [1, 4, 10, 11, 12, 13, 14, 15, 16, 17, 18, 19 :: nat]"
  by simp

lemma scalar_predicted_x: "kalman_predict scr scalar_filter 1 scalar_heap 1 = [0]"
proof -
  have "A_x scalar_heap scalar_filter 0 0 = 0" "scalar_heap 1 = [0]"
    by (simp_all add: scalar_eval)
  moreover have "kalman_predict scr scalar_filter 1 scalar_heap 1
      = entries 1 1 (A_x scalar_heap scalar_filter) @ drop (1 * 1) (scalar_heap 1)"
    by (rule predict_x [OF scalar_init buffers_distinct])
  ultimately show ?thesis
    by (simp only: entries_1_1) simp
qed

lemma scalar_predicted_P: "kalman_predict scr scalar_filter 1 scalar_heap 4 = [1]"
proof -
  have "A_P_At scalar_heap scalar_filter 0 0 = 1" "B_Q_Bt scalar_heap scalar_filter 0 0 = 0"
    "scalar_heap 4 = [1]"
    by (simp_all add: scalar_eval)
  moreover have "kalman_predict scr scalar_filter 1 scalar_heap 4
      = entries 1 1 (\<lambda>i j. A_P_At scalar_heap scalar_filter i j * (1 / (1 * 1))
          + B_Q_Bt scalar_heap scalar_filter i j) @ drop (1 * 1) (scalar_heap 4)"
    by (rule predict_P [OF scalar_init buffers_distinct])
  ultimately show ?thesis
    by (simp only: entries_1_1) simp
qed

lemma predicted_scalar_buffers:
  "predicted_scalar_heap (Suc 0) = [0]" "predicted_scalar_heap 4 = [1]"
  "predicted_scalar_heap 10 = [1]" "predicted_scalar_heap 11 = [2]"
  "predicted_scalar_heap 12 = [1]" "predicted_scalar_heap 13 = [0]"
  "predicted_scalar_heap 14 = [0]" "predicted_scalar_heap 15 = [0]"
proof -
  have frame: "predicted_scalar_heap p = scalar_heap p" if "p \<notin> {1, 4, 6, 7, 8, 9}" for p
    unfolding predicted_scalar_heap_def
    using that by (rule predict_frame [OF scalar_init buffers_distinct])
  show "predicted_scalar_heap (Suc 0) = [0]" "predicted_scalar_heap 4 = [1]"
    using scalar_predicted_x [of untouched_scratch] scalar_predicted_P [of untouched_scratch]
    by (simp_all add: predicted_scalar_heap_def)
  show "predicted_scalar_heap 10 = [1]" "predicted_scalar_heap 11 = [2]"
    "predicted_scalar_heap 12 = [1]" "predicted_scalar_heap 13 = [0]"
    "predicted_scalar_heap 14 = [0]" "predicted_scalar_heap 15 = [0]"
    by (simp_all add: frame scalar_heap_def)
qed

lemmas scalar_correct_eval = scalar_filter_def kalman_filter_initialize_eq
  scalar_measurement_def kalman_measurement_initialize_eq scalar_ops_def mat_mult_def
  mat_mult_transb_def elem_def predicted_scalar_buffers

lemma scalar_correct_values:
  "innovation predicted_scalar_heap scalar_filter scalar_measurement 0 0 = 2"
  "residual_covariance predicted_scalar_heap scalar_filter scalar_measurement 0 0 = 2"
  "residual_factor scalar_ops predicted_scalar_heap scalar_filter scalar_measurement = [sqrt 2]"
  "gain scalar_ops predicted_scalar_heap scalar_filter scalar_measurement 0 0 = 1 / 2"
  "corrected_state scalar_ops predicted_scalar_heap scalar_filter scalar_measurement 0 0 = 1"
  "corrected_covariance scalar_ops predicted_scalar_heap scalar_filter scalar_measurement 0 0
     = 1 / 2"
proof -
  let ?h = predicted_scalar_heap and ?kf = scalar_filter and ?kfm = scalar_measurement
  have sh: "cols (kfm_K ?kfm) = Suc 0" "rows (kfm_S ?kfm) = Suc 0" "cols (kfm_S ?kfm) = Suc 0"
    "data (kfm_S ?kfm) = 14"
    by (simp_all add: scalar_measurement_def kalman_measurement_initialize_eq)
  have ops: "chol_factor scalar_ops n xs = map sqrt xs"
    "lower_inverse scalar_ops n xs = map (\<lambda>l. 1 / (l * l)) xs" for n xs
    by (simp_all add: scalar_ops_def)
  show i: "innovation ?h ?kf ?kfm 0 0 = 2"
    by (simp add: innovation_def scalar_correct_eval)
  have hp: "H_P ?h ?kf ?kfm 0 0 = 1"
    by (simp add: H_P_def scalar_correct_eval)
  have xv: "elem ?h (kf_x ?kf) 0 0 = 0" and pv: "elem ?h (kf_P ?kf) 0 0 = 1"
    by (simp_all add: scalar_correct_eval)
  have pht: "mat_mult_transb (cols (kf_P ?kf)) (elem ?h (kf_P ?kf)) (elem ?h (kfm_H ?kfm)) 0 0 = 1"
    by (simp add: scalar_correct_eval)
  show r: "residual_covariance ?h ?kf ?kfm 0 0 = 2"
    by (simp add: residual_covariance_def H_P_def scalar_correct_eval)
  have "entries (Suc 0) (Suc 0) (residual_covariance ?h ?kf ?kfm) = [2]"
    using entries_1_1 [of "residual_covariance ?h ?kf ?kfm"] by (simp add: r)
  then show f: "residual_factor scalar_ops ?h ?kf ?kfm = [sqrt 2]"
    by (simp add: residual_factor_def sh ops predicted_scalar_buffers)
  have ri: "residual_inverse scalar_ops ?h ?kf ?kfm 0 0 = 1 / 2"
    by (simp add: residual_inverse_def f sh ops)
  show g: "gain scalar_ops ?h ?kf ?kfm 0 0 = 1 / 2"
    by (simp add: gain_def sh mat_mult_def pht ri)
  show "corrected_state scalar_ops ?h ?kf ?kfm 0 0 = 1"
    by (simp add: corrected_state_def sh mat_mult_def g i xv)
  show "corrected_covariance scalar_ops ?h ?kf ?kfm 0 0 = 1 / 2"
    by (simp add: corrected_covariance_def sh mat_mult_def g hp pv)
qed

section \<open>Infinities and NaN in the products\<close>
















section \<open>The claims\<close>

text \<open>
  In the theorems below a filter \<open>kf\<close> is the structure that
  \<^verbatim>\<open>kalman_filter_initialize\<close> returns for \<open>n\<close> states, \<open>m\<close> inputs and the
  buffers \<open>A\<close>, \<open>x\<close>, \<open>B\<close>, \<open>u\<close>, \<open>P\<close>, \<open>Q\<close>, \<open>aux\<close>, \<open>predictedX\<close>, \<open>temp_P\<close>,
  \<open>temp_BQ\<close>, which are ten different buffers (the spec's precondition of
  section 4.1). The memory \<open>h\<close> in which the time update runs, the fading
  factor and what the library leaves in its scratch vector are arbitrary.
\<close>

subsection \<open>What the time update computes\<close>

text \<open>
  Claim C1. After \<^verbatim>\<open>kalman_predict\<close> the predicted-state buffer and \<open>x\<close> both
  hold \<open>A\<cdot>x\<close>, the temporary covariance buffer holds \<open>A\<cdot>P\<close>, and \<open>P\<close> holds
  \<open>(A\<cdot>P)\<cdot>A\<^sup>T\<close> scaled by \<open>1 / (lambda * lambda)\<close>, plus \<open>(B\<cdot>Q)\<cdot>B\<^sup>T\<close> when the
  guard of line 118 holds; all of them computed from the contents of \<open>A\<close>,
  \<open>x\<close>, \<open>P\<close>, \<open>B\<close> and \<open>Q\<close> before the call. The theorem holds for every
  \<open>lambda\<close>, so for every \<open>lambda\<close> with \<open>0 < lambda \<le> 1\<close>, and uses no law of
  arithmetic.
\<close>

theorem kalman_predict_state_and_covariance:
  fixes h :: "('a::{zero,one,plus,times,inverse}) heap"
  assumes "kalman_filter_initialize kf0 n m A x B u P Q aux predictedX temp_P temp_BQ h0 = (kf, h0')"
      and "distinct [A, x, B, u, P, Q, aux, predictedX, temp_P, temp_BQ]"
  shows "(\<forall>i<n. elem (kalman_predict scr kf lambda h) (tmp_predicted_x (temporary kf)) i 0
                  = A_x h kf i 0
              \<and> elem (kalman_predict scr kf lambda h) (kf_x kf) i 0 = A_x h kf i 0)
       \<and> (\<forall>i<n. \<forall>j<n.
             elem (kalman_predict scr kf lambda h) (tmp_P (temporary kf)) i j = A_P h kf i j
           \<and> elem (kalman_predict scr kf lambda h) (kf_P kf) i j =
               (if 0 < rows (kf_B kf)
                then A_P_At h kf i j * (1 / (lambda * lambda)) + B_Q_Bt h kf i j
                else A_P_At h kf i j * (1 / (lambda * lambda))))"
proof -
  have "0 < rows (kf_B kf)" if "i < n" for i
    using that by (simp add: init_fields [OF assms(1)])
  then show ?thesis
    by (simp add: predict_elem_x [OF assms] predict_elem_predictedX [OF assms]
        predict_elem_temp_P [OF assms] predict_elem_P [OF assms])
qed

text \<open>
  Witness of C1: the two-state filter with \<open>lambda = 1 / 2\<close>. \<open>A\<cdot>x = [1, 1]\<close>,
  \<open>A\<cdot>P = A\<close>, and the entry \<open>(1, 1)\<close> of \<open>P\<close> becomes \<open>1 \<cdot> 4 + 1 = 5\<close>.
\<close>

theorem kalman_predict_state_and_covariance_witness:
  "kalman_filter_initialize blank_filter 2 1 0 1 2 3 4 5 6 7 8 9 two_state_heap
     = (two_state_filter, two_state_heap)
   \<and> distinct [0, 1, 2, 3, 4, 5, 6, 7, 8, 9 :: nat]
   \<and> elem (kalman_predict untouched_scratch two_state_filter (1 / 2) two_state_heap)
        (kf_x two_state_filter) 0 0 = 1
   \<and> elem (kalman_predict untouched_scratch two_state_filter (1 / 2) two_state_heap)
        (tmp_P (temporary two_state_filter)) 0 1 = 1
   \<and> elem (kalman_predict untouched_scratch two_state_filter (1 / 2) two_state_heap)
        (kf_P two_state_filter) 1 1 = 5"
proof -
  let ?h = "kalman_predict untouched_scratch two_state_filter (1 / 2) two_state_heap"
  note run = kalman_predict_state_and_covariance [OF two_state_init buffers_distinct,
      where scr = untouched_scratch and lambda = "1 / 2" and h = two_state_heap]
  have guard: "0 < rows (kf_B two_state_filter)"
    by (simp add: two_state_eval)
  have "elem ?h (kf_x two_state_filter) 0 0 = A_x two_state_heap two_state_filter 0 0"
    using run by simp
  moreover have "elem ?h (tmp_P (temporary two_state_filter)) 0 1
      = A_P two_state_heap two_state_filter 0 1"
    using run by simp
  moreover have "elem ?h (kf_P two_state_filter) 1 1
      = A_P_At two_state_heap two_state_filter 1 1 * (1 / ((1 / 2) * (1 / 2)))
        + B_Q_Bt two_state_heap two_state_filter 1 1"
    using run guard by simp
  moreover have "A_x two_state_heap two_state_filter 0 0 = 1"
    "A_P two_state_heap two_state_filter 0 1 = 1"
    "A_P_At two_state_heap two_state_filter 1 1 = 1"
    "B_Q_Bt two_state_heap two_state_filter 1 1 = 1"
    by (simp_all add: two_state_eval)
  ultimately show ?thesis
    using two_state_init by simp
qed

subsection \<open>No input\<close>


subsection \<open>Symmetry of the covariance\<close>




subsection \<open>The fading factor\<close>




subsection \<open>The fading factor zero\<close>



subsection \<open>What the time update touches\<close>

text \<open>
  Claim C9. \<^verbatim>\<open>kalman_predict\<close> changes no buffer but \<open>x\<close>, \<open>P\<close> and the four
  scratch buffers, so \<open>A\<close>, \<open>B\<close>, \<open>Q\<close> and \<open>u\<close> keep their contents (the
  structure itself is only read). The buffer \<open>u\<close> is not read: writing any
  contents \<open>v\<close> to it before the update or after it gives the same memory.
  \<^verbatim>\<open>kalman_correct\<close> gives the same result whatever \<open>u\<close> holds, and so do the
  statements behind its assertion when \<open>u\<close> is none of the measurement's
  buffers and locals. The contents of \<open>x\<close> and \<open>P\<close> after the update are the
  same in any two memories that agree on \<open>A\<close>, \<open>x\<close>, \<open>B\<close>, \<open>P\<close> and \<open>Q\<close>,
  whatever the scratch buffers held and whatever the library leaves in its
  scratch vector.
\<close>

theorem predict_frame_and_scratch:
  fixes h :: "('a::{zero,one,plus,minus,times,inverse}) heap"
  assumes "kalman_filter_initialize kf0 n m A x B u P Q aux predictedX temp_P temp_BQ h0 = (kf, h0')"
      and "distinct [A, x, B, u, P, Q, aux, predictedX, temp_P, temp_BQ]"
  shows "(\<forall>p. p \<notin> {x, P, aux, predictedX, temp_P, temp_BQ} \<longrightarrow>
            kalman_predict scr kf lambda h p = h p)
       \<and> kalman_predict scr kf lambda h A = h A
       \<and> kalman_predict scr kf lambda h B = h B
       \<and> kalman_predict scr kf lambda h Q = h Q
       \<and> kalman_predict scr kf lambda h u = h u
       \<and> kalman_predict scr kf lambda (h(u := v)) = (kalman_predict scr kf lambda h)(u := v)
       \<and> kalman_correct scr ops loc kf kfm (h(u := v)) = kalman_correct scr ops loc kf kfm h
       \<and> (u \<notin> {data (kfm_z kfm), data (kfm_H kfm), data (kfm_R kfm), data (kfm_y kfm),
                data (kfm_S kfm), data (kfm_K kfm), loc_aux loc, data (loc_Sinv loc),
                data (loc_temp loc), data (loc_temp2 loc)} \<longrightarrow>
            kalman_correct_steps scr ops loc kf kfm (h(u := v))
              = (kalman_correct_steps scr ops loc kf kfm h)(u := v))
       \<and> (\<forall>g. g A = h A \<and> g x = h x \<and> g B = h B \<and> g P = h P \<and> g Q = h Q \<longrightarrow>
              kalman_predict scr kf lambda g x = kalman_predict scr kf lambda h x
            \<and> kalman_predict scr kf lambda g P = kalman_predict scr kf lambda h P)"
proof -
  note fields = init_fields [OF assms(1)]
  have frame: "kalman_predict scr kf lambda h p = h p"
    if "p \<notin> {x, P, aux, predictedX, temp_P, temp_BQ}" for p
    using that by (rule predict_frame [OF assms])
  have unchanged: "kalman_predict scr kf lambda h A = h A" "kalman_predict scr kf lambda h B = h B"
    "kalman_predict scr kf lambda h Q = h Q" "kalman_predict scr kf lambda h u = h u"
    using assms(2) by (auto intro!: frame)
  have unread: "kalman_predict scr kf lambda (h(u := v)) = (kalman_predict scr kf lambda h)(u := v)"
    using assms(2) by (intro kalman_predict_upd_other) (auto simp: fields)
  have correct: "kalman_correct scr ops loc kf kfm (h(u := v)) = kalman_correct scr ops loc kf kfm h"
    by (simp add: kalman_correct_def c_assert_def)
  have steps: "kalman_correct_steps scr ops loc kf kfm (h(u := v))
      = (kalman_correct_steps scr ops loc kf kfm h)(u := v)"
    if "u \<notin> {data (kfm_z kfm), data (kfm_H kfm), data (kfm_R kfm), data (kfm_y kfm),
                data (kfm_S kfm), data (kfm_K kfm), loc_aux loc, data (loc_Sinv loc),
                data (loc_temp loc), data (loc_temp2 loc)}"
    using that assms(2) by (intro kalman_correct_steps_upd_other) (auto simp: fields)
  have scratch: "kalman_predict scr kf lambda g x = kalman_predict scr kf lambda h x
      \<and> kalman_predict scr kf lambda g P = kalman_predict scr kf lambda h P"
    if "g A = h A \<and> g x = h x \<and> g B = h B \<and> g P = h P \<and> g Q = h Q" for g
    using that predict_values_cong [OF assms(1), of g h]
    by (simp add: predict_x [OF assms] predict_P [OF assms])
  show ?thesis
    using frame unchanged unread correct steps scratch by blast
qed

text \<open>
  Witness of C9: the two-state filter; address 20 is no buffer of the filter,
  address 3 is \<open>u\<close>, and the second memory differs in the scratch buffers.
\<close>

theorem predict_frame_and_scratch_witness:
  "kalman_filter_initialize blank_filter 2 1 0 1 2 3 4 5 6 7 8 9 two_state_heap
     = (two_state_filter, two_state_heap)
   \<and> distinct [0, 1, 2, 3, 4, 5, 6, 7, 8, 9 :: nat]
   \<and> (20 :: nat) \<notin> {1, 4, 6, 7, 8, 9}
   \<and> kalman_predict untouched_scratch two_state_filter 1 two_state_heap 20 = two_state_heap 20
   \<and> kalman_predict untouched_scratch two_state_filter 1 two_state_heap 0 = two_state_heap 0
   \<and> kalman_predict untouched_scratch two_state_filter 1 two_state_heap 3 = two_state_heap 3
   \<and> kalman_predict untouched_scratch two_state_filter 1 (two_state_heap(3 := [7]))
       = (kalman_predict untouched_scratch two_state_filter 1 two_state_heap)(3 := [7])
   \<and> (3 :: nat) \<notin> {data (kfm_z two_state_measurement), data (kfm_H two_state_measurement),
         data (kfm_R two_state_measurement), data (kfm_y two_state_measurement),
         data (kfm_S two_state_measurement), data (kfm_K two_state_measurement),
         loc_aux scalar_locals, data (loc_Sinv scalar_locals), data (loc_temp scalar_locals),
         data (loc_temp2 scalar_locals)}
   \<and> kalman_correct_steps untouched_scratch scalar_ops scalar_locals two_state_filter
         two_state_measurement (two_state_heap(3 := [7]))
       = (kalman_correct_steps untouched_scratch scalar_ops scalar_locals two_state_filter
           two_state_measurement two_state_heap)(3 := [7])
   \<and> dirty_scratch_heap 0 = two_state_heap 0 \<and> dirty_scratch_heap 1 = two_state_heap 1
   \<and> dirty_scratch_heap 2 = two_state_heap 2 \<and> dirty_scratch_heap 4 = two_state_heap 4
   \<and> dirty_scratch_heap 5 = two_state_heap 5
   \<and> dirty_scratch_heap 6 \<noteq> two_state_heap 6
   \<and> kalman_predict untouched_scratch two_state_filter 1 dirty_scratch_heap 1
       = kalman_predict untouched_scratch two_state_filter 1 two_state_heap 1
   \<and> kalman_predict untouched_scratch two_state_filter 1 dirty_scratch_heap 4
       = kalman_predict untouched_scratch two_state_filter 1 two_state_heap 4"
proof -
  note run = predict_frame_and_scratch [OF two_state_init buffers_distinct,
      where scr = untouched_scratch and lambda = 1 and h = two_state_heap and v = "[7]"
        and ops = scalar_ops and loc = scalar_locals and kfm = two_state_measurement]
  have out: "(20 :: nat) \<notin> {1, 4, 6, 7, 8, 9}"
    by simp
  have apart: "(3 :: nat) \<notin> {data (kfm_z two_state_measurement), data (kfm_H two_state_measurement),
         data (kfm_R two_state_measurement), data (kfm_y two_state_measurement),
         data (kfm_S two_state_measurement), data (kfm_K two_state_measurement),
         loc_aux scalar_locals, data (loc_Sinv scalar_locals), data (loc_temp scalar_locals),
         data (loc_temp2 scalar_locals)}"
    by (simp add: two_state_measurement_def kalman_measurement_initialize_eq scalar_locals_def)
  have same: "dirty_scratch_heap 0 = two_state_heap 0" "dirty_scratch_heap 1 = two_state_heap 1"
    "dirty_scratch_heap 2 = two_state_heap 2" "dirty_scratch_heap 4 = two_state_heap 4"
    "dirty_scratch_heap 5 = two_state_heap 5"
    by (simp_all add: dirty_scratch_heap_def)
  have differ: "dirty_scratch_heap 6 \<noteq> two_state_heap 6"
    by (simp add: dirty_scratch_heap_def two_state_heap_def)
  have "kalman_predict untouched_scratch two_state_filter 1 two_state_heap 20 = two_state_heap 20"
    using run out by blast
  moreover have "kalman_predict untouched_scratch two_state_filter 1 two_state_heap 0 = two_state_heap 0"
    "kalman_predict untouched_scratch two_state_filter 1 two_state_heap 3 = two_state_heap 3"
    "kalman_predict untouched_scratch two_state_filter 1 (two_state_heap(3 := [7]))
       = (kalman_predict untouched_scratch two_state_filter 1 two_state_heap)(3 := [7])"
    using run by blast+
  moreover have "kalman_correct_steps untouched_scratch scalar_ops scalar_locals two_state_filter
         two_state_measurement (two_state_heap(3 := [7]))
       = (kalman_correct_steps untouched_scratch scalar_ops scalar_locals two_state_filter
           two_state_measurement two_state_heap)(3 := [7])"
    using run apart by blast
  moreover have "kalman_predict untouched_scratch two_state_filter 1 dirty_scratch_heap 1
       = kalman_predict untouched_scratch two_state_filter 1 two_state_heap 1"
    "kalman_predict untouched_scratch two_state_filter 1 dirty_scratch_heap 4
       = kalman_predict untouched_scratch two_state_filter 1 two_state_heap 4"
    using run same by blast+
  ultimately show ?thesis
    using two_state_init buffers_distinct out apart same differ by (simp only: simp_thms)
qed

subsection \<open>Initialisation is wiring\<close>

text \<open>
  Claim C10. \<^verbatim>\<open>kalman_filter_initialize\<close> and \<^verbatim>\<open>kalman_measurement_initialize\<close>
  store the caller's buffer addresses with the declared shapes
  (\<open>A\<close> \<open>n \<times> n\<close>, \<open>x\<close> \<open>n \<times> 1\<close>, \<open>B\<close> \<open>n \<times> m\<close>, \<open>u\<close> \<open>m \<times> 1\<close>, \<open>P\<close> \<open>n \<times> n\<close>,
  \<open>Q\<close> \<open>m \<times> m\<close>; \<open>H\<close> \<open>k \<times> n\<close>, \<open>z\<close> \<open>k \<times> 1\<close>, \<open>R\<close> \<open>k \<times> k\<close>, \<open>y\<close> \<open>k \<times> 1\<close>,
  \<open>S\<close> \<open>k \<times> k\<close>, \<open>K\<close> \<open>n \<times> k\<close>) and do nothing else: every field of the
  structure is overwritten, the structure that results does not depend on
  the memory (no buffer is read), the memory is returned as it was (no
  buffer is modified), and there is no failing branch (no validation).
\<close>

theorem initialize_is_pure_wiring:
  "kalman_filter_initialize kf n m A x B u P Q aux predictedX temp_P temp_BQ h =
     (\<lparr>kf_x = \<lparr>rows = n, cols = 1, data = x\<rparr>,
       kf_A = \<lparr>rows = n, cols = n, data = A\<rparr>,
       kf_P = \<lparr>rows = n, cols = n, data = P\<rparr>,
       kf_u = \<lparr>rows = m, cols = 1, data = u\<rparr>,
       kf_B = \<lparr>rows = n, cols = m, data = B\<rparr>,
       kf_Q = \<lparr>rows = m, cols = m, data = Q\<rparr>,
       temporary = \<lparr>tmp_aux = aux,
         tmp_predicted_x = \<lparr>rows = n, cols = 1, data = predictedX\<rparr>,
         tmp_P = \<lparr>rows = n, cols = n, data = temp_P\<rparr>,
         tmp_BQ = \<lparr>rows = n, cols = m, data = temp_BQ\<rparr>\<rparr>\<rparr>, h)
   \<and> kalman_measurement_initialize kfm n k H z R y S K g =
     (\<lparr>kfm_z = \<lparr>rows = k, cols = 1, data = z\<rparr>,
       kfm_H = \<lparr>rows = k, cols = n, data = H\<rparr>,
       kfm_R = \<lparr>rows = k, cols = k, data = R\<rparr>,
       kfm_y = \<lparr>rows = k, cols = 1, data = y\<rparr>,
       kfm_S = \<lparr>rows = k, cols = k, data = S\<rparr>,
       kfm_K = \<lparr>rows = n, cols = k, data = K\<rparr>\<rparr>, g)"
  by (simp add: kalman_filter_initialize_eq kalman_measurement_initialize_eq)

subsection \<open>The measurement update stops at its assertion\<close>

text \<open>
  Claim C4. For every filter state and measurement block, whatever the
  library and the indeterminate locals, \<^verbatim>\<open>kalman_correct\<close> fails at the
  assertion of line 132 and so never completes.
\<close>

theorem kalman_correct_always_fails:
  "kalman_correct scr ops loc kf kfm h = Inl Assertion_failed"
  by (simp add: kalman_correct_def c_assert_def)

text \<open>
  Claim C2 describes the measurement update that the statements behind the
  assertion are written for. The function as given returns no memory at
  all, so none in which \<open>y\<close>, \<open>S\<close>, \<open>K\<close>, \<open>x\<close> and \<open>P\<close> hold the values of the
  claim.
\<close>

theorem kalman_correct_returns_no_update:
  "kalman_correct scr ops loc kf kfm h \<noteq> Inr h'"
  by (simp add: kalman_correct_def c_assert_def)

text \<open>
  Claim C5 is the spec's worked example: the scalar filter, one
  \<^verbatim>\<open>kalman_predict\<close> with \<open>lambda = 1\<close>, then one \<^verbatim>\<open>kalman_correct\<close>. The time
  update leaves \<open>x = [0]\<close> and \<open>P = [1]\<close> as claimed. The measurement update
  then fails at its assertion: \<open>y\<close>, \<open>S\<close>, \<open>K\<close>, \<open>x\<close> and \<open>P\<close> never receive the
  values of the example.
\<close>

theorem scalar_example_predict_then_correct:
  "kalman_predict scr scalar_filter 1 scalar_heap 1 = [0]
   \<and> kalman_predict scr scalar_filter 1 scalar_heap 4 = [1]
   \<and> kalman_correct scr ops loc scalar_filter scalar_measurement
        (kalman_predict scr scalar_filter 1 scalar_heap) = Inl Assertion_failed"
proof -
  have vals: "A_x scalar_heap scalar_filter 0 0 = 0" "A_P_At scalar_heap scalar_filter 0 0 = 1"
    "B_Q_Bt scalar_heap scalar_filter 0 0 = 0"
    by (simp_all add: scalar_eval)
  have bufs: "scalar_heap 1 = [0]" "scalar_heap 4 = [1]"
    by (simp_all add: scalar_heap_def)
  have "kalman_predict scr scalar_filter 1 scalar_heap 1
      = entries 1 1 (A_x scalar_heap scalar_filter) @ drop (1 * 1) (scalar_heap 1)"
    by (rule predict_x [OF scalar_init buffers_distinct])
  then have x: "kalman_predict scr scalar_filter 1 scalar_heap 1 = [0]"
    by (simp only: entries_1_1 vals bufs) simp
  have "kalman_predict scr scalar_filter 1 scalar_heap 4
      = entries 1 1 (\<lambda>i j. A_P_At scalar_heap scalar_filter i j * (1 / (1 * 1))
          + B_Q_Bt scalar_heap scalar_filter i j) @ drop (1 * 1) (scalar_heap 4)"
    by (rule predict_P [OF scalar_init buffers_distinct])
  then have P: "kalman_predict scr scalar_filter 1 scalar_heap 4 = [1]"
    by (simp only: entries_1_1 vals bufs) simp
  have "kalman_correct scr ops loc scalar_filter scalar_measurement
        (kalman_predict scr scalar_filter 1 scalar_heap) = Inl Assertion_failed"
    by (simp add: kalman_correct_def c_assert_def)
  with x P show ?thesis
    by (simp only: simp_thms)
qed

subsection \<open>The statements behind the assertion\<close>

text \<open>
  What the measurement update is written to do. Were the assertion of line
  132 removed, the number of measurements equal to the number of states
  \<open>n\<close>, and the locals \<open>Sinv\<close>, \<open>temp\<close> and \<open>temp2\<close> given \<open>n \<times> n\<close> storage apart
  from every other buffer, the statements of lines 138 to 188 would leave the
  innovation \<open>z - H\<cdot>x\<close> in \<open>y\<close>, the factor of \<open>H\<cdot>P\<cdot>H\<^sup>T + R\<close> in \<open>S\<close>, its inverse
  in \<open>Sinv\<close>, the gain \<open>(P\<cdot>H\<^sup>T)\<cdot>S\<^sup>-\<^sup>1\<close> in \<open>K\<close>, \<open>x + K\<cdot>y\<close> in \<open>x\<close> and
  \<open>P - K\<cdot>(H\<cdot>P)\<close> in \<open>P\<close>, each computed from the contents before the call:
  the formulas of claim C2.
\<close>

theorem correct_statements_compute_update:
  fixes h :: "('a::{zero,plus,minus,times}) heap"
  assumes "kalman_filter_initialize kf0 n m A x B u P Q aux predictedX temp_P temp_BQ h0 = (kf, h0')"
      and "kalman_measurement_initialize kfm0 n n H z R y S K g0 = (kfm, g0')"
      and "loc = \<lparr>loc_aux = laux, loc_Sinv = \<lparr>rows = n, cols = n, data = Sinv\<rparr>,
                  loc_temp = \<lparr>rows = n, cols = n, data = temp\<rparr>,
                  loc_temp2 = \<lparr>rows = n, cols = n, data = temp2\<rparr>\<rparr>"
      and "distinct [x, P, H, z, R, y, S, K, laux, Sinv, temp, temp2]"
  shows "(\<forall>i<n. elem (kalman_correct_steps scr ops loc kf kfm h) (kfm_y kfm) i 0
                  = innovation h kf kfm i 0)
       \<and> kalman_correct_steps scr ops loc kf kfm h S = residual_factor ops h kf kfm
       \<and> kalman_correct_steps scr ops loc kf kfm h Sinv
           = lower_inverse ops n (residual_factor ops h kf kfm)
       \<and> (\<forall>i<n. \<forall>j<n. elem (kalman_correct_steps scr ops loc kf kfm h) (kfm_K kfm) i j
                  = gain ops h kf kfm i j)
       \<and> (\<forall>i<n. elem (kalman_correct_steps scr ops loc kf kfm h) (kf_x kf) i 0
                  = corrected_state ops h kf kfm i 0)
       \<and> (\<forall>i<n. \<forall>j<n. elem (kalman_correct_steps scr ops loc kf kfm h) (kf_P kf) i j
                  = corrected_covariance ops h kf kfm i j)"
proof -
  note bufs = correct_steps_buffers [OF assms]
  note kf = init_fields [OF assms(1)] and kfm = measurement_fields [OF assms(2)]
  have col: "entries n (Suc 0) f ! i = f i 0" if "i < n" for i and f :: "nat \<Rightarrow> nat \<Rightarrow> 'a"
    using entries_nth [of i n 0 1 f] that by simp
  have "elem (kalman_correct_steps scr ops loc kf kfm h) (kfm_y kfm) i 0
      = innovation h kf kfm i 0" if "i < n" for i
    using that by (simp add: elem_def kfm bufs nth_append length_entries col)
  moreover have "elem (kalman_correct_steps scr ops loc kf kfm h) (kf_x kf) i 0
      = corrected_state ops h kf kfm i 0" if "i < n" for i
    using that by (simp add: elem_def kf bufs nth_append length_entries col)
  moreover have "elem (kalman_correct_steps scr ops loc kf kfm h) (kfm_K kfm) i j
      = gain ops h kf kfm i j" if "i < n" "j < n" for i j
    using that by (simp add: elem_def kfm bufs nth_append length_entries index_in_range
        entries_nth)
  moreover have "elem (kalman_correct_steps scr ops loc kf kfm h) (kf_P kf) i j
      = corrected_covariance ops h kf kfm i j" if "i < n" "j < n" for i j
    using that by (simp add: elem_def kf bufs nth_append length_entries index_in_range
        entries_nth)
  ultimately show ?thesis
    by (simp add: bufs)
qed

text \<open>An instance: the scalar example after its time update.\<close>

theorem correct_statements_compute_update_witness:
  "kalman_filter_initialize blank_filter 1 0 0 1 2 3 4 5 6 7 8 9 scalar_heap
     = (scalar_filter, scalar_heap)
   \<and> kalman_measurement_initialize blank_measurement 1 1 10 11 12 13 14 15 scalar_heap
     = (scalar_measurement, scalar_heap)
   \<and> scalar_locals = \<lparr>loc_aux = 16, loc_Sinv = \<lparr>rows = 1, cols = 1, data = 17\<rparr>,
       loc_temp = \<lparr>rows = 1, cols = 1, data = 18\<rparr>, loc_temp2 = \<lparr>rows = 1, cols = 1, data = 19\<rparr>\<rparr>
   \<and> distinct [1, 4, 10, 11, 12, 13, 14, 15, 16, 17, 18, 19 :: nat]
   \<and> elem (kalman_correct_steps untouched_scratch scalar_ops scalar_locals scalar_filter
        scalar_measurement predicted_scalar_heap) (kfm_y scalar_measurement) 0 0 = 2
   \<and> elem (kalman_correct_steps untouched_scratch scalar_ops scalar_locals scalar_filter
        scalar_measurement predicted_scalar_heap) (kfm_K scalar_measurement) 0 0 = 1 / 2
   \<and> elem (kalman_correct_steps untouched_scratch scalar_ops scalar_locals scalar_filter
        scalar_measurement predicted_scalar_heap) (kf_x scalar_filter) 0 0 = 1
   \<and> elem (kalman_correct_steps untouched_scratch scalar_ops scalar_locals scalar_filter
        scalar_measurement predicted_scalar_heap) (kf_P scalar_filter) 0 0 = 1 / 2"
proof -
  let ?h = "kalman_correct_steps untouched_scratch scalar_ops scalar_locals scalar_filter
        scalar_measurement predicted_scalar_heap"
  note run = correct_statements_compute_update [OF scalar_init scalar_measurement_init
      scalar_locals_eq correct_buffers_distinct, of untouched_scratch scalar_ops
      predicted_scalar_heap]
  have "elem ?h (kfm_y scalar_measurement) 0 0
      = innovation predicted_scalar_heap scalar_filter scalar_measurement 0 0"
    using run by simp
  moreover have "elem ?h (kfm_K scalar_measurement) 0 0
      = gain scalar_ops predicted_scalar_heap scalar_filter scalar_measurement 0 0"
    using run by simp
  moreover have "elem ?h (kf_x scalar_filter) 0 0
      = corrected_state scalar_ops predicted_scalar_heap scalar_filter scalar_measurement 0 0"
    using run by simp
  moreover have "elem ?h (kf_P scalar_filter) 0 0
      = corrected_covariance scalar_ops predicted_scalar_heap scalar_filter scalar_measurement 0 0"
    using run by simp
  ultimately show ?thesis
    using scalar_init scalar_measurement_init scalar_locals_eq
    by (simp add: scalar_correct_values)
qed

text \<open>
  On the scalar example of claim C5 these statements would leave \<open>y = [2]\<close>,
  \<open>K = [1 / 2]\<close>, \<open>x = [1]\<close> and \<open>P = [1 / 2]\<close>, and in \<open>S\<close> the factor
  \<open>[sqrt 2]\<close> of the residual covariance \<open>[2]\<close>.
\<close>

theorem scalar_example_behind_assertion:
  "kalman_correct_steps untouched_scratch scalar_ops scalar_locals scalar_filter
     scalar_measurement predicted_scalar_heap 13 = [2]
   \<and> kalman_correct_steps untouched_scratch scalar_ops scalar_locals scalar_filter
     scalar_measurement predicted_scalar_heap 14 = [sqrt 2]
   \<and> kalman_correct_steps untouched_scratch scalar_ops scalar_locals scalar_filter
     scalar_measurement predicted_scalar_heap 15 = [1 / 2]
   \<and> kalman_correct_steps untouched_scratch scalar_ops scalar_locals scalar_filter
     scalar_measurement predicted_scalar_heap 1 = [1]
   \<and> kalman_correct_steps untouched_scratch scalar_ops scalar_locals scalar_filter
     scalar_measurement predicted_scalar_heap 4 = [1 / 2]"
proof -
  note bufs = correct_steps_buffers [OF scalar_init scalar_measurement_init scalar_locals_eq
      correct_buffers_distinct, of untouched_scratch scalar_ops predicted_scalar_heap]
  have "predicted_scalar_heap 1 = [0]"
    using predicted_scalar_buffers(1) by simp
  then show ?thesis
    by (simp only: bufs entries_1_1 scalar_correct_values predicted_scalar_buffers) simp
qed

end
